theory Spec2Isabelle
  imports Complex_Main
begin

section \<open>JavaScript values\<close>

text \<open>
  The server of \<^verbatim>\<open>mcp-server/src/index.ts\<close> handles values that arrive as JSON (tool
  arguments, the parsed configuration file, the body of an HTTP response) together with
  \<^verbatim>\<open>undefined\<close>. Numbers are finite doubles; they are embedded in the rationals, which
  is all the code needs: it only tests them for truthiness and prints them.
  An object is an association list in insertion order.
\<close>

datatype jsval =
    JUndefined
  | JNull
  | JBool bool
  | JNum rat
  | JStr string
  | JArr "jsval list"
  | JObj "(string \<times> jsval) list"

text \<open>Truthiness, as tested by \<^verbatim>\<open>!x\<close> and \<^verbatim>\<open>x || y\<close>.\<close>

fun truthy :: "jsval \<Rightarrow> bool" where
  "truthy JUndefined = False"
| "truthy JNull = False"
| "truthy (JBool b) = b"
| "truthy (JNum x) = (x \<noteq> 0)"
| "truthy (JStr s) = (s \<noteq> [])"
| "truthy (JArr xs) = True"
| "truthy (JObj kvs) = True"

definition js_or :: "jsval \<Rightarrow> jsval \<Rightarrow> jsval" where
  "js_or a b = (if truthy a then a else b)"

text \<open>
  Property read \<^verbatim>\<open>v?.k\<close>: \<^verbatim>\<open>undefined\<close> on \<^verbatim>\<open>undefined\<close> and \<^verbatim>\<open>null\<close>, the own
  property on an object. The keys the server reads (\<^verbatim>\<open>query\<close>, \<^verbatim>\<open>handle\<close>,
  \<^verbatim>\<open>shopDomain\<close>, ...) are inherited from no prototype, so a primitive or an array yields
  \<^verbatim>\<open>undefined\<close>. The one plain read \<^verbatim>\<open>config.k\<close> of the source is guarded by
  \<^verbatim>\<open>!config\<close>, where both reads agree.
\<close>

fun get_prop :: "jsval \<Rightarrow> string \<Rightarrow> jsval" where
  "get_prop (JObj kvs) k = (case map_of kvs k of Some v \<Rightarrow> v | None \<Rightarrow> JUndefined)"
| "get_prop v k = JUndefined"

text \<open>Assignment \<^verbatim>\<open>obj[k] = v\<close>: an existing key keeps its place, a new key goes last.\<close>

fun assign :: "string \<Rightarrow> jsval \<Rightarrow> (string \<times> jsval) list \<Rightarrow> (string \<times> jsval) list" where
  "assign k v [] = [(k, v)]"
| "assign k v (p # ps) = (if fst p = k then (k, v) # ps else p # assign k v ps)"

fun set_prop :: "jsval \<Rightarrow> string \<Rightarrow> jsval \<Rightarrow> jsval" where
  "set_prop (JObj kvs) k v = JObj (assign k v kvs)"
| "set_prop x k v = x"

text \<open>\<^verbatim>\<open>obj[k].push(v)\<close> on an array-valued property.\<close>

fun push_prop :: "jsval \<Rightarrow> string \<Rightarrow> jsval \<Rightarrow> jsval" where
  "push_prop obj k v =
     (case get_prop obj k of JArr xs \<Rightarrow> set_prop obj k (JArr (xs @ [v])) | other \<Rightarrow> obj)"

text \<open>A thrown \<^verbatim>\<open>Error\<close>, identified by its \<^verbatim>\<open>message\<close>.\<close>

datatype error = Error (message: string)

definition nl :: string where
  "nl = [CHR 0x0A]"

fun join_with :: "string \<Rightarrow> string list \<Rightarrow> string" where
  "join_with sep [] = []"
| "join_with sep [x] = x"
| "join_with sep (x # y # ys) = x @ sep @ join_with sep (y # ys)"

section \<open>The runtime and the outside world\<close>

text \<open>
  Functions of Node.js and ECMAScript that the server calls are parameters of the model:
  \<^item> \<open>join_paths\<close> is \<^verbatim>\<open>path.join\<close> on strings, \<open>invalid_path_arg\<close> the message of the
    \<^verbatim>\<open>TypeError\<close> that \<^verbatim>\<open>path.join\<close> throws on an argument that is not a string;
  \<^item> \<open>path_extname\<close> is \<^verbatim>\<open>path.extname\<close>;
  \<^item> \<open>JSON_parse\<close> is \<^verbatim>\<open>JSON.parse\<close> (a \<^verbatim>\<open>SyntaxError\<close> is \<open>Inl\<close>);
  \<^item> \<open>JSON_stringify n v\<close> is \<^verbatim>\<open>JSON.stringify(v, null, n)\<close>, with \<open>n = 0\<close> for the call
    without indentation;
  \<^item> \<open>Number_toString\<close> prints a number inside a template literal;
  \<^item> \<open>Date_toISOString\<close> is \<^verbatim>\<open>Date.prototype.toISOString\<close> on a valid time in
    milliseconds.
\<close>

record runtime =
  dirname :: string
  platform :: string
  join_paths :: "string list \<Rightarrow> string"
  invalid_path_arg :: "jsval \<Rightarrow> string"
  path_extname :: "string \<Rightarrow> string"
  JSON_parse :: "string \<Rightarrow> error + jsval"
  JSON_stringify :: "nat \<Rightarrow> jsval \<Rightarrow> string"
  Number_toString :: "rat \<Rightarrow> string"
  Date_toISOString :: "int \<Rightarrow> string"

record stats =
  st_size :: nat
  st_mtime :: int

record http_request =
  req_url :: string
  req_method :: string
  req_headers :: "(string \<times> jsval) list"
  req_body :: string

text \<open>A response is what \<^verbatim>\<open>response.json()\<close> gives: the decoded body or the error.\<close>

record http_response =
  json :: "error + jsval"

text \<open>
  The world is what a call observes outside the process: the file system through the four
  \<^verbatim>\<open>fs\<close> calls of the source (each may fail on its own, \<open>Inl\<close> carrying the error),
  \<^verbatim>\<open>process.env\<close>, and the remote end answering \<^verbatim>\<open>fetch\<close>.
\<close>

record world =
  existsSync :: "string \<Rightarrow> bool"
  readFileSync :: "string \<Rightarrow> error + string"
  readdirSync :: "string \<Rightarrow> error + string list"
  statSync :: "string \<Rightarrow> error + stats"
  environ :: "string \<Rightarrow> string option"
  fetch :: "http_request \<Rightarrow> error + http_response"

text \<open>\<^verbatim>\<open>process.env.K\<close>: a string, or \<^verbatim>\<open>undefined\<close> when the variable is not set.\<close>

definition getenv :: "world \<Rightarrow> string \<Rightarrow> jsval" where
  "getenv w k = (case environ w k of None \<Rightarrow> JUndefined | Some s \<Rightarrow> JStr s)"

text \<open>The results of a list of steps, up to the first that throws.\<close>

fun collect :: "(error + 'a) list \<Rightarrow> error + 'a list" where
  "collect [] = Inr []"
| "collect (Inl e # rs) = Inl e"
| "collect (Inr x # rs) = (case collect rs of Inl e \<Rightarrow> Inl e | Inr xs \<Rightarrow> Inr (x # xs))"

text \<open>
  String conversion inside a template literal. An object is converted by its
  \<^verbatim>\<open>toString\<close>: the inherited one gives \<^verbatim>\<open>[object Object]\<close>, but an own property
  \<^verbatim>\<open>toString\<close> hides it, and in a value that came from JSON that property is never
  callable, nor does \<^verbatim>\<open>valueOf\<close> give a primitive, so the conversion throws a
  \<^verbatim>\<open>TypeError\<close>. An array is joined with commas, which converts its elements in order
  (\<^verbatim>\<open>undefined\<close> and \<^verbatim>\<open>null\<close> as the empty string).
\<close>

fun to_string :: "runtime \<Rightarrow> jsval \<Rightarrow> error + string" where
  "to_string rt JUndefined = Inr ''undefined''"
| "to_string rt JNull = Inr ''null''"
| "to_string rt (JBool b) = Inr (if b then ''true'' else ''false'')"
| "to_string rt (JNum x) = Inr (Number_toString rt x)"
| "to_string rt (JStr s) = Inr s"
| "to_string rt (JArr xs) =
     (case collect (map (\<lambda>x. if x = JUndefined \<or> x = JNull then Inr []
                               else to_string rt x) xs) of
        Inl e \<Rightarrow> Inl e
      | Inr parts \<Rightarrow> Inr (join_with '','' parts))"
| "to_string rt (JObj kvs) =
     (if ''toString'' \<in> set (map fst kvs)
      then Inl (Error ''Cannot convert object to primitive value'')
      else Inr ''[object Object]'')"

text \<open>
  \<^verbatim>\<open>stats.mtime.toISOString()\<close>: a \<^verbatim>\<open>Date\<close> holds a time within 8.64e15 milliseconds
  of the epoch. A modification time beyond that makes \<^verbatim>\<open>stats.mtime\<close> an invalid date,
  on which \<^verbatim>\<open>toISOString\<close> throws a \<^verbatim>\<open>RangeError\<close>.
\<close>

definition toISOString :: "runtime \<Rightarrow> int \<Rightarrow> error + string" where
  "toISOString rt t =
     (if \<bar>t\<bar> \<le> 8640000000000000 then Inr (Date_toISOString rt t)
      else Inl (Error ''Invalid time value''))"

text \<open>\<^verbatim>\<open>path.join(...)\<close>: the first argument that is not a string raises.\<close>

fun is_str :: "jsval \<Rightarrow> bool" where
  "is_str (JStr s) = True"
| "is_str v = False"

fun str_of :: "jsval \<Rightarrow> string" where
  "str_of (JStr s) = s"
| "str_of v = []"

definition path_join :: "runtime \<Rightarrow> jsval list \<Rightarrow> error + string" where
  "path_join rt args =
     (case find (\<lambda>a. \<not> is_str a) args of
        Some a \<Rightarrow> Inl (Error (invalid_path_arg rt a))
      | None \<Rightarrow> Inr (join_paths rt (map str_of args)))"

section \<open>Tool results\<close>

record text_content =
  c_type :: string
  c_text :: string

text \<open>\<open>isError\<close> is \<open>None\<close> where the returned object has no such key.\<close>

record tool_result =
  content :: "text_content list"
  isError :: "bool option"

definition text_result :: "string \<Rightarrow> tool_result" where
  "text_result t = \<lparr>content = [\<lparr>c_type = ''text'', c_text = t\<rparr>], isError = None\<rparr>"

definition error_result :: "string \<Rightarrow> tool_result" where
  "error_result m =
     \<lparr>content = [\<lparr>c_type = ''text'', c_text = ''Error: '' @ m\<rparr>], isError = Some True\<rparr>"

text \<open>
  A handler returns its outcome (\<open>Inl\<close> for a thrown error) and the \<^verbatim>\<open>fetch\<close> calls it
  issued, in order.
\<close>

type_synonym outcome = "(error + tool_result) \<times> http_request list"

section \<open>Configuration\<close>

text \<open>
  \<^verbatim>\<open>loadConfig\<close> (lines 548-574). The value parsed from the file is returned as it is
  (the cast to \<^verbatim>\<open>StorefrontApiConfig\<close> checks nothing at run time), so the result is any
  JavaScript value; \<^verbatim>\<open>null\<close> is \<open>JNull\<close>. The field \<^verbatim>\<open>config\<close> of the class is
  initialised to \<^verbatim>\<open>null\<close> and neither read nor assigned by any method, so the server
  carries no state from one call to the next.
\<close>

definition loadConfig :: "runtime \<Rightarrow> world \<Rightarrow> jsval" where
  "loadConfig rt w =
     (let configPath = join_paths rt [dirname rt, ''../../.mcp-config.json''];
          fromFile =
            (if existsSync w configPath then
               (case readFileSync w configPath of
                  Inl e \<Rightarrow> None
                | Inr s \<Rightarrow> (case JSON_parse rt s of Inl e \<Rightarrow> None | Inr config \<Rightarrow> Some config))
             else None)
      in case fromFile of
           Some config \<Rightarrow> config
         | None \<Rightarrow>
             if truthy (getenv w ''STOREFRONT_SHOP_DOMAIN'') \<and>
                truthy (getenv w ''STOREFRONT_ACCESS_TOKEN'')
             then JObj [(''shopDomain'', getenv w ''STOREFRONT_SHOP_DOMAIN''),
                        (''accessToken'', getenv w ''STOREFRONT_ACCESS_TOKEN''),
                        (''apiVersion'',
                           js_or (getenv w ''STOREFRONT_API_VERSION'') (JStr ''2024-01''))]
             else JNull)"

section \<open>The Storefront API tools\<close>

definition config_missing_text :: string where
  "config_missing_text =
     ''Storefront API configuration not found. Please set up your access token first.''"

text \<open>
  \<^verbatim>\<open>queryStorefrontApi\<close> (lines 309-358). The URL is a template literal evaluated inside
  the \<^verbatim>\<open>try\<close>, before \<^verbatim>\<open>fetch\<close> is called: when \<^verbatim>\<open>config.shopDomain\<close> or
  \<^verbatim>\<open>config.apiVersion\<close> cannot be converted to a string, the \<^verbatim>\<open>catch\<close> rethrows and no
  call of \<^verbatim>\<open>fetch\<close> is made. The second component lists the calls of \<^verbatim>\<open>fetch\<close>; the
  access token is handed to \<^verbatim>\<open>fetch\<close> as it is.
\<close>

definition queryStorefrontApi :: "runtime \<Rightarrow> world \<Rightarrow> jsval \<Rightarrow> jsval \<Rightarrow> outcome" where
  "queryStorefrontApi rt w query variables =
     (if \<not> truthy query then (Inl (Error ''GraphQL query is required''), [])
      else
        let config = loadConfig rt w in
        if \<not> truthy config then (Inr (text_result config_missing_text), [])
        else
          (case to_string rt (get_prop config ''shopDomain'') of
             Inl e \<Rightarrow> (Inl (Error (''API request failed: '' @ message e)), [])
           | Inr shopDomain \<Rightarrow>
          (case to_string rt (get_prop config ''apiVersion'') of
             Inl e \<Rightarrow> (Inl (Error (''API request failed: '' @ message e)), [])
           | Inr apiVersion \<Rightarrow>
          let req = \<lparr>req_url = ''https://'' @ shopDomain @ ''/api/'' @ apiVersion @
                               ''/graphql.json'',
                     req_method = ''POST'',
                     req_headers =
                       [(''Content-Type'', JStr ''application/json''),
                        (''X-Shopify-Storefront-Access-Token'', get_prop config ''accessToken'')],
                     req_body =
                       JSON_stringify rt 0
                         (JObj [(''query'', query),
                                (''variables'', js_or variables (JObj []))])\<rparr>
          in (case fetch w req of
                Inl e \<Rightarrow> Inl (Error (''API request failed: '' @ message e))
              | Inr response \<Rightarrow>
                  (case json response of
                     Inl e \<Rightarrow> Inl (Error (''API request failed: '' @ message e))
                   | Inr data \<Rightarrow> Inr (text_result (JSON_stringify rt 2 data))),
              [req]))))"

text \<open>
  The three fixed GraphQL documents (lines 365-389, 402-425, 438-456), line by line.
\<close>

definition product_document :: string where
  "product_document =
     join_with nl
     ['''',
      ''      query getProduct($handle: String!) {'',
      ''        product(handle: $handle) {'',
      ''          id'',
      ''          title'',
      ''          description'',
      ''          handle'',
      ''          vendor'',
      ''          priceRange {'',
      ''            minVariantPrice {'',
      ''              amount'',
      ''              currencyCode'',
      ''            }'',
      ''          }'',
      ''          images(first: 10) {'',
      ''            edges {'',
      ''              node {'',
      ''                url'',
      ''                altText'',
      ''              }'',
      ''            }'',
      ''          }'',
      ''        }'',
      ''      }'',
      ''    '']"

definition collection_document :: string where
  "collection_document =
     join_with nl
     ['''',
      ''      query getCollection($handle: String!, $first: Int!) {'',
      ''        collection(handle: $handle) {'',
      ''          id'',
      ''          title'',
      ''          description'',
      ''          products(first: $first) {'',
      ''            edges {'',
      ''              node {'',
      ''                id'',
      ''                title'',
      ''                handle'',
      ''                priceRange {'',
      ''                  minVariantPrice {'',
      ''                    amount'',
      ''                    currencyCode'',
      ''                  }'',
      ''                }'',
      ''              }'',
      ''            }'',
      ''          }'',
      ''        }'',
      ''      }'',
      ''    '']"

definition search_document :: string where
  "search_document =
     join_with nl
     ['''',
      ''      query searchProducts($query: String!, $first: Int!) {'',
      ''        products(first: $first, query: $query) {'',
      ''          edges {'',
      ''            node {'',
      ''              id'',
      ''              title'',
      ''              handle'',
      ''              priceRange {'',
      ''                minVariantPrice {'',
      ''                  amount'',
      ''                  currencyCode'',
      ''                }'',
      ''              }'',
      ''            }'',
      ''          }'',
      ''        }'',
      ''      }'',
      ''    '']"

text \<open>A parameter with a default value takes it when the argument is \<^verbatim>\<open>undefined\<close>.\<close>

definition default_param :: "jsval \<Rightarrow> jsval \<Rightarrow> jsval" where
  "default_param v d = (if v = JUndefined then d else v)"

text \<open>\<^verbatim>\<open>getProduct\<close> (lines 360-392).\<close>

definition getProduct :: "runtime \<Rightarrow> world \<Rightarrow> jsval \<Rightarrow> outcome" where
  "getProduct rt w handle =
     (if \<not> truthy handle then (Inl (Error ''Product handle is required''), [])
      else queryStorefrontApi rt w (JStr product_document) (JObj [(''handle'', handle)]))"

text \<open>\<^verbatim>\<open>getCollection\<close> (lines 394-428).\<close>

definition getCollection :: "runtime \<Rightarrow> world \<Rightarrow> jsval \<Rightarrow> jsval \<Rightarrow> outcome" where
  "getCollection rt w handle first_arg =
     (let first = default_param first_arg (JNum 20) in
      if \<not> truthy handle then (Inl (Error ''Collection handle is required''), [])
      else queryStorefrontApi rt w (JStr collection_document)
             (JObj [(''handle'', handle), (''first'', first)]))"

text \<open>\<^verbatim>\<open>searchProducts\<close> (lines 430-459).\<close>

definition searchProducts :: "runtime \<Rightarrow> world \<Rightarrow> jsval \<Rightarrow> jsval \<Rightarrow> outcome" where
  "searchProducts rt w query first_arg =
     (let first = default_param first_arg (JNum 20) in
      if \<not> truthy query then (Inl (Error ''Search query is required''), [])
      else queryStorefrontApi rt w (JStr search_document)
             (JObj [(''query'', query), (''first'', first)]))"

section \<open>The local tools\<close>

text \<open>
  \<^verbatim>\<open>buildWasm\<close> (lines 287-307). The two locals \<^verbatim>\<open>wasmDir\<close> and \<^verbatim>\<open>buildScript\<close> are
  computed from strings and never used. The target is whatever truthy value the caller
  sent; the template literal throws when it cannot be converted to a string.
\<close>

definition buildWasm :: "runtime \<Rightarrow> jsval \<Rightarrow> error + tool_result" where
  "buildWasm rt target =
     (case to_string rt target of
        Inl e \<Rightarrow> Inl e
      | Inr targetText \<Rightarrow>
          Inr (text_result (join_with nl
            [''To build the WebAssembly module, run:'',
             ''          '',
             ''cd storefront-api-wasm'',
             (if platform rt = ''win32'' then ''build.bat'' else ''./build.sh''),
             '''',
             ''Or manually:'',
             ''wasm-pack build --target '' @ targetText @
               '' --out-dir ../Liquid-main/assets/wasm --release'',
             '''',
             ''The build will create files in Liquid-main/assets/wasm/''])))"

text \<open>
  \<^verbatim>\<open>readRustCode\<close> (lines 461-481); \<^verbatim>\<open>path.join\<close> is called before the \<^verbatim>\<open>try\<close>, the
  file is read and the text assembled inside it.
\<close>

definition readRustCode :: "runtime \<Rightarrow> world \<Rightarrow> jsval \<Rightarrow> error + tool_result" where
  "readRustCode rt w file =
     (case path_join rt [JStr (dirname rt), JStr ''../../storefront-api-wasm/src'', file] of
        Inl e \<Rightarrow> Inl e
      | Inr filePath \<Rightarrow>
          (case readFileSync w filePath of
             Inl e \<Rightarrow> Inl (Error (''Failed to read Rust file: '' @ message e))
           | Inr fileContent \<Rightarrow>
               (case to_string rt file of
                  Inl e \<Rightarrow> Inl (Error (''Failed to read Rust file: '' @ message e))
                | Inr fileName \<Rightarrow>
                    Inr (text_result (''# '' @ fileName @ nl @ nl @ ''```rust'' @ nl @
                                      fileContent @ nl @ ''```'')))))"

text \<open>\<^verbatim>\<open>readJsWrapper\<close> (lines 483-499).\<close>

definition readJsWrapper :: "runtime \<Rightarrow> world \<Rightarrow> jsval \<Rightarrow> error + tool_result" where
  "readJsWrapper rt w file =
     (case path_join rt [JStr (dirname rt), JStr ''../../Liquid-main/assets'', file] of
        Inl e \<Rightarrow> Inl e
      | Inr filePath \<Rightarrow>
          (case readFileSync w filePath of
             Inl e \<Rightarrow> Inl (Error (''Failed to read JavaScript file: '' @ message e))
           | Inr fileContent \<Rightarrow>
               (case to_string rt file of
                  Inl e \<Rightarrow> Inl (Error (''Failed to read JavaScript file: '' @ message e))
                | Inr fileName \<Rightarrow>
                    Inr (text_result (''# '' @ fileName @ nl @ nl @ ''```javascript'' @ nl @
                                      fileContent @ nl @ ''```'')))))"

text \<open>
  \<^verbatim>\<open>checkBuildStatus\<close> (lines 501-546). \<open>check_expected\<close> is the \<^verbatim>\<open>for\<close> loop over the
  expected files (lines 518-530), \<open>buildStatus\<close> the \<^verbatim>\<open>status\<close> object as it stands at
  line 537, and \<open>checkBuildStatus\<close> wraps its pretty-printed form. Nothing in the method
  catches: a failure of \<^verbatim>\<open>readdirSync\<close>, \<^verbatim>\<open>statSync\<close> or \<^verbatim>\<open>toISOString\<close> leaves it.
\<close>

definition expectedFiles :: "string list" where
  "expectedFiles = [''storefront_api_wasm.js'', ''storefront_api_wasm_bg.wasm'']"

fun check_expected ::
  "runtime \<Rightarrow> world \<Rightarrow> string \<Rightarrow> string list \<Rightarrow> string list \<Rightarrow> jsval \<Rightarrow> error + jsval" where
  "check_expected rt w wasmDir files [] status = Inr status"
| "check_expected rt w wasmDir files (expected # rest) status =
     (if expected \<in> set files then
        (let filePath = join_paths rt [wasmDir, expected] in
         case statSync w filePath of
           Inl e \<Rightarrow> Inl e
         | Inr stats \<Rightarrow>
             (case toISOString rt (st_mtime stats) of
                Inl e \<Rightarrow> Inl e
              | Inr modified \<Rightarrow>
                  check_expected rt w wasmDir files rest
                    (set_prop status expected
                       (JObj [(''exists'', JBool True),
                              (''size'', JNum (of_nat (st_size stats))),
                              (''modified'', JStr modified)]))))
      else check_expected rt w wasmDir files rest (push_prop status ''missing'' (JStr expected)))"

definition buildStatus :: "runtime \<Rightarrow> world \<Rightarrow> error + jsval" where
  "buildStatus rt w =
     (let wasmDir = join_paths rt [dirname rt, ''../../Liquid-main/assets/wasm''];
          status = JObj [(''built'', JBool False), (''files'', JArr []), (''missing'', JArr [])]
      in if existsSync w wasmDir then
           (case readdirSync w wasmDir of
              Inl e \<Rightarrow> Inl e
            | Inr files \<Rightarrow>
                (case check_expected rt w wasmDir files expectedFiles
                        (set_prop status ''files'' (JArr (map JStr files))) of
                   Inl e \<Rightarrow> Inl e
                 | Inr status' \<Rightarrow>
                     Inr (set_prop status' ''built''
                            (JBool (get_prop status' ''missing'' = JArr [])))))
         else Inr (set_prop (set_prop status ''built'' (JBool False))
                     ''missing'' (JArr (map JStr expectedFiles))))"

definition checkBuildStatus :: "runtime \<Rightarrow> world \<Rightarrow> error + tool_result" where
  "checkBuildStatus rt w =
     (case buildStatus rt w of
        Inl e \<Rightarrow> Inl e
      | Inr status \<Rightarrow> Inr (text_result (JSON_stringify rt 2 status)))"

section \<open>The tool registry and the dispatcher\<close>

record tool_descriptor =
  tool_name :: string
  tool_description :: string
  inputSchema :: jsval

definition string_property :: "string \<Rightarrow> jsval" where
  "string_property d = JObj [(''type'', JStr ''string''), (''description'', JStr d)]"

text \<open>The answer to a list-tools request (lines 47-172).\<close>

definition listTools :: "tool_descriptor list" where
  "listTools =
     [\<lparr>tool_name = ''build_wasm'',
       tool_description = ''Build the WebAssembly module for Storefront API'',
       inputSchema = JObj [(''type'', JStr ''object''),
         (''properties'', JObj [(''target'', JObj [(''type'', JStr ''string''),
            (''enum'', JArr [JStr ''web'']),
            (''description'',
               JStr (''Build target (currently only '' @ [CHR 0x22] @ ''web'' @ [CHR 0x22] @
                     '' is supported)'')),
            (''default'', JStr ''web'')])])]\<rparr>,
      \<lparr>tool_name = ''query_storefront_api'',
       tool_description = ''Execute a GraphQL query against Shopify Storefront API'',
       inputSchema = JObj [(''type'', JStr ''object''),
         (''properties'', JObj [(''query'', string_property ''GraphQL query string''),
            (''variables'', JObj [(''type'', JStr ''object''),
               (''description'', JStr ''Optional GraphQL variables'')])]),
         (''required'', JArr [JStr ''query''])]\<rparr>,
      \<lparr>tool_name = ''get_product'',
       tool_description = ''Get product data by handle using Storefront API'',
       inputSchema = JObj [(''type'', JStr ''object''),
         (''properties'', JObj [(''handle'', string_property ''Product handle'')]),
         (''required'', JArr [JStr ''handle''])]\<rparr>,
      \<lparr>tool_name = ''get_collection'',
       tool_description = ''Get collection data by handle using Storefront API'',
       inputSchema = JObj [(''type'', JStr ''object''),
         (''properties'', JObj [(''handle'', string_property ''Collection handle''),
            (''first'', JObj [(''type'', JStr ''number''),
               (''description'', JStr ''Number of products to fetch''),
               (''default'', JNum 20)])]),
         (''required'', JArr [JStr ''handle''])]\<rparr>,
      \<lparr>tool_name = ''search_products'',
       tool_description = ''Search products using Storefront API'',
       inputSchema = JObj [(''type'', JStr ''object''),
         (''properties'', JObj [(''query'', string_property ''Search query''),
            (''first'', JObj [(''type'', JStr ''number''),
               (''description'', JStr ''Number of results''),
               (''default'', JNum 20)])]),
         (''required'', JArr [JStr ''query''])]\<rparr>,
      \<lparr>tool_name = ''read_rust_code'',
       tool_description = ''Read and analyze Rust source code from the WebAssembly module'',
       inputSchema = JObj [(''type'', JStr ''object''),
         (''properties'', JObj [(''file'', JObj [(''type'', JStr ''string''),
            (''description'', JStr ''File path relative to storefront-api-wasm/src/''),
            (''default'', JStr ''lib.rs'')])])]\<rparr>,
      \<lparr>tool_name = ''read_js_wrapper'',
       tool_description = ''Read JavaScript wrapper code'',
       inputSchema = JObj [(''type'', JStr ''object''),
         (''properties'', JObj [(''file'', JObj [(''type'', JStr ''string''),
            (''enum'', JArr [JStr ''storefront-api.js'', JStr ''storefront-api-integration.js'']),
            (''description'', JStr ''JavaScript wrapper file to read'')])]),
         (''required'', JArr [JStr ''file''])]\<rparr>,
      \<lparr>tool_name = ''check_build_status'',
       tool_description = ''Check if WebAssembly files are built and up to date'',
       inputSchema = JObj [(''type'', JStr ''object''), (''properties'', JObj [])]\<rparr>]"

text \<open>
  The call-tool handler (lines 175-221): \<open>callTool_try\<close> is the \<^verbatim>\<open>switch\<close> inside the
  \<^verbatim>\<open>try\<close>, \<open>callTool\<close> adds the \<^verbatim>\<open>catch\<close>. The tool name is a string and the
  arguments are an object or \<^verbatim>\<open>undefined\<close>.
\<close>

definition callTool_try :: "runtime \<Rightarrow> world \<Rightarrow> string \<Rightarrow> jsval \<Rightarrow> outcome" where
  "callTool_try rt w name args =
     (if name = ''build_wasm'' then
        (buildWasm rt (js_or (get_prop args ''target'') (JStr ''web'')), [])
      else if name = ''query_storefront_api'' then
        queryStorefrontApi rt w (get_prop args ''query'') (get_prop args ''variables'')
      else if name = ''get_product'' then
        getProduct rt w (get_prop args ''handle'')
      else if name = ''get_collection'' then
        getCollection rt w (get_prop args ''handle'') (get_prop args ''first'')
      else if name = ''search_products'' then
        searchProducts rt w (get_prop args ''query'') (get_prop args ''first'')
      else if name = ''read_rust_code'' then
        (readRustCode rt w (js_or (get_prop args ''file'') (JStr ''lib.rs'')), [])
      else if name = ''read_js_wrapper'' then
        (readJsWrapper rt w (get_prop args ''file''), [])
      else if name = ''check_build_status'' then
        (checkBuildStatus rt w, [])
      else (Inl (Error (''Unknown tool: '' @ name)), []))"

definition callTool ::
  "runtime \<Rightarrow> world \<Rightarrow> string \<Rightarrow> jsval \<Rightarrow> tool_result \<times> http_request list" where
  "callTool rt w name args =
     (case callTool_try rt w name args of
        (Inl e, reqs) \<Rightarrow> (error_result (message e), reqs)
      | (Inr result, reqs) \<Rightarrow> (result, reqs))"

section \<open>Resources\<close>

record resource_descriptor =
  res_uri :: string
  res_name :: string
  res_description :: string
  res_mimeType :: string

text \<open>The answer to a list-resources request (lines 224-251).\<close>

definition listResources :: "resource_descriptor list" where
  "listResources =
     [\<lparr>res_uri = ''file://storefront-api-wasm/src/lib.rs'',
       res_name = ''Rust Source Code'',
       res_description = ''Main Rust implementation for Storefront API'',
       res_mimeType = ''text/x-rust''\<rparr>,
      \<lparr>res_uri = ''file://Liquid-main/assets/storefront-api.js'',
       res_name = ''JavaScript Wrapper'',
       res_description = ''JavaScript wrapper for WebAssembly module'',
       res_mimeType = ''application/javascript''\<rparr>,
      \<lparr>res_uri = ''file://Liquid-main/assets/storefront-api-integration.js'',
       res_name = ''Integration Helper'',
       res_description = ''High-level integration helper'',
       res_mimeType = ''application/javascript''\<rparr>,
      \<lparr>res_uri = ''file://storefront-api-wasm/Cargo.toml'',
       res_name = ''Cargo Configuration'',
       res_description = ''Rust dependencies and build configuration'',
       res_mimeType = ''text/x-toml''\<rparr>]"







section \<open>The configuration sources, as the specification words them\<close>

definition config_file_path :: "runtime \<Rightarrow> string" where
  "config_file_path rt = join_paths rt [dirname rt, ''../../.mcp-config.json'']"

text \<open>
  Source (1): the local JSON file. It yields the parsed value when the file exists, can be
  read and parses; a failure to read or to parse counts as an absent file.
\<close>

definition spec_file_source :: "runtime \<Rightarrow> world \<Rightarrow> jsval option" where
  "spec_file_source rt w =
     (if existsSync w (config_file_path rt) then
        (case readFileSync w (config_file_path rt) of
           Inl e \<Rightarrow> None
         | Inr s \<Rightarrow> (case JSON_parse rt s of Inl e \<Rightarrow> None | Inr v \<Rightarrow> Some v))
      else None)"

text \<open>
  Source (2): the environment. Shop domain and access token are both required (set and not
  empty); the API version is optional and defaults to \<^verbatim>\<open>2024-01\<close>.
\<close>

definition spec_env_source :: "world \<Rightarrow> jsval option" where
  "spec_env_source w =
     (case (environ w ''STOREFRONT_SHOP_DOMAIN'', environ w ''STOREFRONT_ACCESS_TOKEN'') of
        (Some d, Some t) \<Rightarrow>
          if d \<noteq> [] \<and> t \<noteq> [] then
            Some (JObj [(''shopDomain'', JStr d), (''accessToken'', JStr t),
                        (''apiVersion'',
                           JStr (case environ w ''STOREFRONT_API_VERSION'' of
                                   None \<Rightarrow> ''2024-01''
                                 | Some v \<Rightarrow> if v = [] then ''2024-01'' else v))])
          else None
      | other \<Rightarrow> None)"

text \<open>The first source in the list that matches wins; with no match the result is \<^verbatim>\<open>null\<close>.\<close>

fun first_match :: "jsval option list \<Rightarrow> jsval" where
  "first_match [] = JNull"
| "first_match (Some v # rest) = v"
| "first_match (None # rest) = first_match rest"

definition spec_loadConfig :: "runtime \<Rightarrow> world \<Rightarrow> jsval" where
  "spec_loadConfig rt w = first_match [spec_file_source rt w, spec_env_source w]"

text \<open>
  The request of the remote call adapter: one POST to
  \<^verbatim>\<open>https://{shopDomain}/api/{apiVersion}/graphql.json\<close> with the two headers and the
  JSON body \<^verbatim>\<open>{query, variables}\<close>, the variables defaulting to the empty object.
\<close>

definition storefront_request ::
  "runtime \<Rightarrow> string \<Rightarrow> string \<Rightarrow> jsval \<Rightarrow> jsval \<Rightarrow> jsval \<Rightarrow> http_request" where
  "storefront_request rt shopDomain apiVersion accessToken query variables =
     \<lparr>req_url = ''https://'' @ shopDomain @ ''/api/'' @ apiVersion @ ''/graphql.json'',
      req_method = ''POST'',
      req_headers = [(''Content-Type'', JStr ''application/json''),
                     (''X-Shopify-Storefront-Access-Token'', accessToken)],
      req_body = JSON_stringify rt 0
                   (JObj [(''query'', query),
                          (''variables'', if truthy variables then variables else JObj [])])\<rparr>"

definition wasm_dir :: "runtime \<Rightarrow> string" where
  "wasm_dir rt = join_paths rt [dirname rt, ''../../Liquid-main/assets/wasm'']"

section \<open>A concrete runtime and a concrete world\<close>

text \<open>
  One instance of the parameters, on which the model is evaluated below. The library
  functions are small stand-ins: the JSON parser knows three documents (\<^verbatim>\<open>null\<close>,
  \<^verbatim>\<open>{}\<close> and \<open>odd_config_text\<close>, a configuration whose shop domain is an object with
  an own \<^verbatim>\<open>toString\<close> property), the serialisers return a fixed text. No statement below
  looks inside what the serialisers return.
\<close>

definition example_extname :: "string \<Rightarrow> string" where
  "example_extname p =
     (let base = rev (takeWhile (\<lambda>c. c \<noteq> CHR ''/'') (rev p));
          e = rev (takeWhile (\<lambda>c. c \<noteq> CHR ''.'') (rev base))
      in if length base \<le> length e + 1 then [] else CHR ''.'' # e)"

definition odd_config_text :: string where
  "odd_config_text =
     ''{'' @ [CHR 0x22] @ ''shopDomain'' @ [CHR 0x22] @ '':{'' @ [CHR 0x22] @ ''toString'' @
     [CHR 0x22] @ '':1},'' @ [CHR 0x22] @ ''accessToken'' @ [CHR 0x22] @ '':'' @ [CHR 0x22] @
     ''secret'' @ [CHR 0x22] @ '','' @ [CHR 0x22] @ ''apiVersion'' @ [CHR 0x22] @ '':'' @
     [CHR 0x22] @ ''2024-01'' @ [CHR 0x22] @ ''}''"

definition odd_config :: jsval where
  "odd_config =
     JObj [(''shopDomain'', JObj [(''toString'', JNum 1)]),
           (''accessToken'', JStr ''secret''),
           (''apiVersion'', JStr ''2024-01'')]"

definition example_parse :: "string \<Rightarrow> error + jsval" where
  "example_parse s =
     (if s = ''null'' then Inr JNull
      else if s = ''{}'' then Inr (JObj [])
      else if s = odd_config_text then Inr odd_config
      else Inl (Error ''Unexpected token''))"

definition example_runtime :: runtime where
  "example_runtime =
     \<lparr>dirname = ''/srv/mcp-server/dist'',
      platform = ''linux'',
      join_paths = join_with ''/'',
      invalid_path_arg = (\<lambda>v. ''The path argument must be of type string''),
      path_extname = example_extname,
      JSON_parse = example_parse,
      JSON_stringify = (\<lambda>n v. ''(json)''),
      Number_toString = (\<lambda>x. ''(number)''),
      Date_toISOString = (\<lambda>t. ''(date)'')\<rparr>"

text \<open>Nothing on disk, no environment variable, no network.\<close>

definition empty_world :: world where
  "empty_world =
     \<lparr>existsSync = (\<lambda>p. False),
      readFileSync = (\<lambda>p. Inl (Error (''ENOENT: no such file or directory, open '' @ p))),
      readdirSync = (\<lambda>p. Inl (Error (''ENOENT: no such file or directory, scandir '' @ p))),
      statSync = (\<lambda>p. Inl (Error (''ENOENT: no such file or directory, stat '' @ p))),
      environ = (\<lambda>k. None),
      fetch = (\<lambda>r. Inl (Error ''fetch failed''))\<rparr>"

text \<open>The same world with the two required environment variables set.\<close>

definition env_world :: world where
  "env_world =
     empty_world\<lparr>environ :=
       [''STOREFRONT_SHOP_DOMAIN'' \<mapsto> ''demo.myshopify.com'',
        ''STOREFRONT_ACCESS_TOKEN'' \<mapsto> ''secret'']\<rparr>"

text \<open>A world whose configuration file holds the text \<open>s\<close>.\<close>

definition config_world :: "world \<Rightarrow> string \<Rightarrow> world" where
  "config_world w s =
     w\<lparr>existsSync := (\<lambda>p. p = ''/srv/mcp-server/dist/../../.mcp-config.json''),
       readFileSync := (\<lambda>p. if p = ''/srv/mcp-server/dist/../../.mcp-config.json'' then Inr s
                             else readFileSync w p)\<rparr>"

text \<open>A world whose output directory exists and lists the given names.\<close>

definition wasm_world :: "string list \<Rightarrow> world" where
  "wasm_world files =
     empty_world
       \<lparr>existsSync := (\<lambda>p. p = ''/srv/mcp-server/dist/../../Liquid-main/assets/wasm''),
        readdirSync := (\<lambda>p. if p = ''/srv/mcp-server/dist/../../Liquid-main/assets/wasm''
                              then Inr files else readdirSync empty_world p),
        statSync := (\<lambda>p. Inr \<lparr>st_size = 2048, st_mtime = 1700000000000\<rparr>)\<rparr>"

text \<open>
  The same directory holding both expected files, each with a modification time beyond the
  range of a \<^verbatim>\<open>Date\<close>.
\<close>

definition far_future_world :: world where
  "far_future_world =
     wasm_world [''storefront_api_wasm.js'', ''storefront_api_wasm_bg.wasm'']
       \<lparr>statSync := (\<lambda>p. Inr \<lparr>st_size = 2048, st_mtime = 9000000000000000\<rparr>)\<rparr>"

section \<open>Unknown tools, missing arguments, missing configuration\<close>

text \<open>
  Claim C2. A tool name outside the registry is answered, whatever the arguments, by a
  result with \<open>isError\<close> true whose text is \<^verbatim>\<open>Error: Unknown tool: <name>\<close>; the call
  returns (nothing is thrown) and no request is issued.
\<close>

theorem unknown_tool_is_error_result:
  assumes "name \<notin> set (map tool_name listTools)"
  shows "callTool rt w name args =
           (\<lparr>content = [\<lparr>c_type = ''text'', c_text = ''Error: '' @ ''Unknown tool: '' @ name\<rparr>],
             isError = Some True\<rparr>, [])"
  using assms by (simp add: listTools_def callTool_def callTool_try_def error_result_def)

theorem unknown_tool_witness:
  "''unknown_tool_x'' \<notin> set (map tool_name listTools) \<and>
   callTool example_runtime empty_world ''unknown_tool_x'' (JObj []) =
     (\<lparr>content = [\<lparr>c_type = ''text'', c_text = ''Error: Unknown tool: unknown_tool_x''\<rparr>],
       isError = Some True\<rparr>, [])"
proof -
  have h: "''unknown_tool_x'' \<notin> set (map tool_name listTools)"
    by (simp add: listTools_def)
  show ?thesis
    using h unknown_tool_is_error_result [OF h, of example_runtime empty_world "JObj []"]
    by simp
qed

text \<open>
  Claim C3. Each of the four tools with a required argument, called without it, returns a
  result with \<open>isError\<close> true that carries the tool's own message, and issues no request:
  \<^verbatim>\<open>get_product\<close> and \<^verbatim>\<open>get_collection\<close> without \<^verbatim>\<open>handle\<close>, \<^verbatim>\<open>search_products\<close> and
  \<^verbatim>\<open>query_storefront_api\<close> without \<^verbatim>\<open>query\<close>.
\<close>

theorem missing_required_argument:
  "(get_prop args ''handle'' = JUndefined \<longrightarrow>
      callTool rt w ''get_product'' args =
        (\<lparr>content = [\<lparr>c_type = ''text'', c_text = ''Error: Product handle is required''\<rparr>],
          isError = Some True\<rparr>, [])) \<and>
   (get_prop args ''handle'' = JUndefined \<longrightarrow>
      callTool rt w ''get_collection'' args =
        (\<lparr>content = [\<lparr>c_type = ''text'', c_text = ''Error: Collection handle is required''\<rparr>],
          isError = Some True\<rparr>, [])) \<and>
   (get_prop args ''query'' = JUndefined \<longrightarrow>
      callTool rt w ''search_products'' args =
        (\<lparr>content = [\<lparr>c_type = ''text'', c_text = ''Error: Search query is required''\<rparr>],
          isError = Some True\<rparr>, [])) \<and>
   (get_prop args ''query'' = JUndefined \<longrightarrow>
      callTool rt w ''query_storefront_api'' args =
        (\<lparr>content = [\<lparr>c_type = ''text'', c_text = ''Error: GraphQL query is required''\<rparr>],
          isError = Some True\<rparr>, []))"
  by (simp add: callTool_def callTool_try_def error_result_def getProduct_def
      getCollection_def searchProducts_def queryStorefrontApi_def Let_def)

theorem missing_required_argument_witness:
  "get_prop (JObj []) ''handle'' = JUndefined \<and>
   get_prop (JObj [(''first'', JNum 5)]) ''query'' = JUndefined \<and>
   callTool example_runtime env_world ''get_product'' (JObj []) =
     (\<lparr>content = [\<lparr>c_type = ''text'', c_text = ''Error: Product handle is required''\<rparr>],
       isError = Some True\<rparr>, []) \<and>
   callTool example_runtime env_world ''get_collection'' (JObj []) =
     (\<lparr>content = [\<lparr>c_type = ''text'', c_text = ''Error: Collection handle is required''\<rparr>],
       isError = Some True\<rparr>, []) \<and>
   callTool example_runtime env_world ''search_products'' (JObj [(''first'', JNum 5)]) =
     (\<lparr>content = [\<lparr>c_type = ''text'', c_text = ''Error: Search query is required''\<rparr>],
       isError = Some True\<rparr>, []) \<and>
   callTool example_runtime env_world ''query_storefront_api'' (JObj [(''first'', JNum 5)]) =
     (\<lparr>content = [\<lparr>c_type = ''text'', c_text = ''Error: GraphQL query is required''\<rparr>],
       isError = Some True\<rparr>, [])"
  using missing_required_argument [of "JObj []" example_runtime env_world]
    missing_required_argument [of "JObj [(''first'', JNum 5)]" example_runtime env_world]
  by simp

text \<open>
  Claim C4. With a query, no configuration file and neither required environment variable,
  \<^verbatim>\<open>query_storefront_api\<close> returns a result without \<open>isError\<close> whose text says that the
  Storefront API configuration was not found, and issues no request.
\<close>

theorem config_missing_soft_fail:
  assumes "truthy query"
    and "\<not> existsSync w (config_file_path rt)"
    and "environ w ''STOREFRONT_SHOP_DOMAIN'' = None"
    and "environ w ''STOREFRONT_ACCESS_TOKEN'' = None"
  shows "queryStorefrontApi rt w query variables =
           (Inr \<lparr>content = [\<lparr>c_type = ''text'',
                   c_text = ''Storefront API configuration not found. Please set up your access token first.''\<rparr>],
                 isError = None\<rparr>, []) \<and>
         (get_prop args ''query'' = query \<longrightarrow>
           callTool rt w ''query_storefront_api'' args =
             (\<lparr>content = [\<lparr>c_type = ''text'',
                   c_text = ''Storefront API configuration not found. Please set up your access token first.''\<rparr>],
               isError = None\<rparr>, []))"
proof -
  have "loadConfig rt w = JNull"
    using assms(2-4) by (simp add: loadConfig_def config_file_path_def getenv_def)
  then show ?thesis
    using assms(1)
    by (simp add: queryStorefrontApi_def text_result_def config_missing_text_def
        callTool_def callTool_try_def)
qed

theorem config_missing_soft_fail_witness:
  "truthy (JStr ''{ shop { name } }'') \<and>
   \<not> existsSync empty_world (config_file_path example_runtime) \<and>
   environ empty_world ''STOREFRONT_SHOP_DOMAIN'' = None \<and>
   environ empty_world ''STOREFRONT_ACCESS_TOKEN'' = None \<and>
   get_prop (JObj [(''query'', JStr ''{ shop { name } }'')]) ''query'' = JStr ''{ shop { name } }'' \<and>
   callTool example_runtime empty_world ''query_storefront_api''
       (JObj [(''query'', JStr ''{ shop { name } }'')]) =
     (\<lparr>content = [\<lparr>c_type = ''text'',
           c_text = ''Storefront API configuration not found. Please set up your access token first.''\<rparr>],
       isError = None\<rparr>, [])"
proof -
  have h1: "truthy (JStr ''{ shop { name } }'')" by simp
  have h2: "\<not> existsSync empty_world (config_file_path example_runtime)"
    by (simp add: empty_world_def)
  have h3: "environ empty_world ''STOREFRONT_SHOP_DOMAIN'' = None"
    and h4: "environ empty_world ''STOREFRONT_ACCESS_TOKEN'' = None"
    by (simp_all add: empty_world_def)
  have h5: "get_prop (JObj [(''query'', JStr ''{ shop { name } }'')]) ''query'' =
            JStr ''{ shop { name } }''" by simp
  show ?thesis
    using h1 h2 h3 h4 h5
      config_missing_soft_fail [OF h1 h2 h3 h4, of JUndefined
        "JObj [(''query'', JStr ''{ shop { name } }'')]"]
    by (simp only: simp_thms)
qed

section \<open>Auxiliary facts\<close>

lemma loadConfig_resolution:
  "loadConfig rt w = first_match [spec_file_source rt w, spec_env_source w]"
  by (auto simp: loadConfig_def spec_file_source_def spec_env_source_def
      config_file_path_def Let_def getenv_def js_or_def split: sum.splits option.splits)

lemma queryStorefrontApi_no_query:
  "\<not> truthy query \<Longrightarrow>
     queryStorefrontApi rt w query variables = (Inl (Error ''GraphQL query is required''), [])"
  by (simp add: queryStorefrontApi_def)

lemma queryStorefrontApi_no_config:
  "truthy query \<Longrightarrow> \<not> truthy (loadConfig rt w) \<Longrightarrow>
     queryStorefrontApi rt w query variables = (Inr (text_result config_missing_text), [])"
  by (simp add: queryStorefrontApi_def)

lemma queryStorefrontApi_post:
  "truthy query \<Longrightarrow> truthy (loadConfig rt w) \<Longrightarrow>
   to_string rt (get_prop (loadConfig rt w) ''shopDomain'') = Inr d \<Longrightarrow>
   to_string rt (get_prop (loadConfig rt w) ''apiVersion'') = Inr a \<Longrightarrow>
     queryStorefrontApi rt w query variables =
       (case fetch w (storefront_request rt d a (get_prop (loadConfig rt w) ''accessToken'')
                        query variables) of
          Inl e \<Rightarrow> Inl (Error (''API request failed: '' @ message e))
        | Inr response \<Rightarrow>
            (case json response of
               Inl e \<Rightarrow> Inl (Error (''API request failed: '' @ message e))
             | Inr data \<Rightarrow> Inr (text_result (JSON_stringify rt 2 data))),
        [storefront_request rt d a (get_prop (loadConfig rt w) ''accessToken'')
           query variables])"
  by (simp add: queryStorefrontApi_def storefront_request_def Let_def js_or_def)

lemma queryStorefrontApi_no_domain:
  "truthy query \<Longrightarrow> truthy (loadConfig rt w) \<Longrightarrow>
   to_string rt (get_prop (loadConfig rt w) ''shopDomain'') = Inl e \<Longrightarrow>
     queryStorefrontApi rt w query variables =
       (Inl (Error (''API request failed: '' @ message e)), [])"
  by (simp add: queryStorefrontApi_def)

lemma queryStorefrontApi_no_version:
  "truthy query \<Longrightarrow> truthy (loadConfig rt w) \<Longrightarrow>
   to_string rt (get_prop (loadConfig rt w) ''shopDomain'') = Inr d \<Longrightarrow>
   to_string rt (get_prop (loadConfig rt w) ''apiVersion'') = Inl e \<Longrightarrow>
     queryStorefrontApi rt w query variables =
       (Inl (Error (''API request failed: '' @ message e)), [])"
  by (simp add: queryStorefrontApi_def)

section \<open>Configuration resolution\<close>

text \<open>
  Claim C5. \<^verbatim>\<open>loadConfig\<close> resolves the configuration in a fixed order, the first source
  that matches winning: (1) the local JSON file, where a file that cannot be read or parsed
  counts as absent; (2) the environment, with \<^verbatim>\<open>STOREFRONT_SHOP_DOMAIN\<close> and
  \<^verbatim>\<open>STOREFRONT_ACCESS_TOKEN\<close> both required and \<^verbatim>\<open>STOREFRONT_API_VERSION\<close> optional,
  defaulting to \<^verbatim>\<open>2024-01\<close>; with no match the result is \<^verbatim>\<open>null\<close>. The file matches
  as soon as it parses, whatever it parses to. Nothing is cached: in a sequence of calls,
  each result is the resolution in the world of that call.
\<close>

theorem loadConfig_priority_order:
  "loadConfig rt w = first_match [spec_file_source rt w, spec_env_source w] \<and>
   map (loadConfig rt) calls =
     map (\<lambda>w. first_match [spec_file_source rt w, spec_env_source w]) calls"
  by (simp add: loadConfig_resolution)

lemma example_config_path [simp]:
  "config_file_path example_runtime = ''/srv/mcp-server/dist/../../.mcp-config.json''"
  by (simp add: config_file_path_def example_runtime_def)

lemma example_parse_runtime [simp]: "JSON_parse example_runtime = example_parse"
  by (simp add: example_runtime_def)

theorem loadConfig_priority_order_witness:
  "loadConfig example_runtime (config_world env_world ''{}'') = JObj [] \<and>
   loadConfig example_runtime (config_world env_world ''{ broken'') =
     JObj [(''shopDomain'', JStr ''demo.myshopify.com''), (''accessToken'', JStr ''secret''),
           (''apiVersion'', JStr ''2024-01'')] \<and>
   loadConfig example_runtime (config_world empty_world ''{ broken'') = JNull \<and>
   loadConfig example_runtime empty_world = JNull \<and>
   map (loadConfig example_runtime) [empty_world, env_world, config_world env_world ''{}''] =
     [JNull,
      JObj [(''shopDomain'', JStr ''demo.myshopify.com''), (''accessToken'', JStr ''secret''),
            (''apiVersion'', JStr ''2024-01'')],
      JObj []]"
  using loadConfig_priority_order [of example_runtime "config_world env_world ''{}''" "[]"]
    loadConfig_priority_order [of example_runtime "config_world env_world ''{ broken''" "[]"]
    loadConfig_priority_order [of example_runtime "config_world empty_world ''{ broken''" "[]"]
    loadConfig_priority_order [of example_runtime empty_world
      "[empty_world, env_world, config_world env_world ''{}'']"]
  by (simp add: spec_file_source_def spec_env_source_def config_world_def env_world_def
      empty_world_def example_parse_def odd_config_text_def)

section \<open>The remote call\<close>

lemma example_odd_config:
  "loadConfig example_runtime (config_world empty_world odd_config_text) = odd_config"
  by (simp add: loadConfig_def config_world_def example_runtime_def example_parse_def
      odd_config_text_def)

lemma example_loadConfig_env:
  "loadConfig example_runtime env_world =
      JObj [(''shopDomain'', JStr ''demo.myshopify.com''), (''accessToken'', JStr ''secret''),
            (''apiVersion'', JStr ''2024-01'')]"
  by (simp add: loadConfig_def env_world_def empty_world_def example_runtime_def
      getenv_def js_or_def)

text \<open>
  Claim C6 as stated, "with a query and a resolved config, exactly one HTTP POST is
  performed", fails at a configuration file whose \<^verbatim>\<open>shopDomain\<close> is the object
  \<^verbatim>\<open>{"toString":1}\<close>: \<^verbatim>\<open>loadConfig\<close> returns it as it is, the URL template cannot
  convert it, and the call fails with \<^verbatim>\<open>API request failed: Cannot convert object to
  primitive value\<close> before any request is made.
\<close>

theorem unconvertible_shop_domain_no_post:
  "truthy (JStr ''{ shop { name } }'') \<and>
   loadConfig example_runtime (config_world empty_world odd_config_text) =
     JObj [(''shopDomain'', JObj [(''toString'', JNum 1)]),
           (''accessToken'', JStr ''secret''),
           (''apiVersion'', JStr ''2024-01'')] \<and>
   truthy (loadConfig example_runtime (config_world empty_world odd_config_text)) \<and>
   queryStorefrontApi example_runtime (config_world empty_world odd_config_text)
       (JStr ''{ shop { name } }'') JUndefined =
     (Inl (Error ''API request failed: Cannot convert object to primitive value''), [])"
  by (simp add: example_odd_config queryStorefrontApi_def)
     (simp add: odd_config_def)


text \<open>
  Claim C6, amended. With a query and a resolved configuration whose \<^verbatim>\<open>shopDomain\<close> and
  \<^verbatim>\<open>apiVersion\<close> convert to strings \<open>d\<close> and \<open>a\<close> inside the URL template (as every
  string does, to itself), \<^verbatim>\<open>query_storefront_api\<close> calls \<^verbatim>\<open>fetch\<close> exactly once,
  whatever the outcome (nothing is retried): a POST to
  \<^verbatim>\<open>https://{d}/api/{a}/graphql.json\<close> with the headers
  \<^verbatim>\<open>Content-Type: application/json\<close> and \<^verbatim>\<open>X-Shopify-Storefront-Access-Token\<close> (the
  configuration's \<^verbatim>\<open>accessToken\<close>) and the JSON body \<^verbatim>\<open>{query, variables}\<close>, the
  variables defaulting to the empty object. The decoded response is returned pretty-printed;
  a failure of \<^verbatim>\<open>fetch\<close> or of the decoding is raised as
  \<^verbatim>\<open>API request failed: <message>\<close>. When \<^verbatim>\<open>shopDomain\<close> or \<^verbatim>\<open>apiVersion\<close> cannot be
  converted, no request is made and the conversion error is raised as
  \<^verbatim>\<open>API request failed: <message>\<close>.
\<close>

theorem one_post_per_query:
  assumes "truthy query" and "truthy (loadConfig rt w)"
  shows "(to_string rt (get_prop (loadConfig rt w) ''shopDomain'') = Inr d \<and>
          to_string rt (get_prop (loadConfig rt w) ''apiVersion'') = Inr a \<longrightarrow>
            snd (queryStorefrontApi rt w query variables) =
              [\<lparr>req_url = ''https://'' @ d @ ''/api/'' @ a @ ''/graphql.json'',
                req_method = ''POST'',
                req_headers = [(''Content-Type'', JStr ''application/json''),
                               (''X-Shopify-Storefront-Access-Token'',
                                  get_prop (loadConfig rt w) ''accessToken'')],
                req_body = JSON_stringify rt 0
                             (JObj [(''query'', query),
                                    (''variables'',
                                       if truthy variables then variables else JObj [])])\<rparr>] \<and>
            (fetch w (storefront_request rt d a (get_prop (loadConfig rt w) ''accessToken'')
                        query variables) = Inr response \<and>
             json response = Inr data \<longrightarrow>
               fst (queryStorefrontApi rt w query variables) =
                 Inr \<lparr>content = [\<lparr>c_type = ''text'', c_text = JSON_stringify rt 2 data\<rparr>],
                      isError = None\<rparr>) \<and>
            (fetch w (storefront_request rt d a (get_prop (loadConfig rt w) ''accessToken'')
                        query variables) = Inl e \<longrightarrow>
               fst (queryStorefrontApi rt w query variables) =
                 Inl (Error (''API request failed: '' @ message e))) \<and>
            (fetch w (storefront_request rt d a (get_prop (loadConfig rt w) ''accessToken'')
                        query variables) = Inr response \<and>
             json response = Inl e \<longrightarrow>
               fst (queryStorefrontApi rt w query variables) =
                 Inl (Error (''API request failed: '' @ message e)))) \<and>
         storefront_request rt d a (get_prop (loadConfig rt w) ''accessToken'') query variables =
           \<lparr>req_url = ''https://'' @ d @ ''/api/'' @ a @ ''/graphql.json'',
            req_method = ''POST'',
            req_headers = [(''Content-Type'', JStr ''application/json''),
                           (''X-Shopify-Storefront-Access-Token'',
                              get_prop (loadConfig rt w) ''accessToken'')],
            req_body = JSON_stringify rt 0
                         (JObj [(''query'', query),
                                (''variables'',
                                   if truthy variables then variables else JObj [])])\<rparr> \<and>
         (get_prop (loadConfig rt w) ''shopDomain'' = JStr d \<and>
          get_prop (loadConfig rt w) ''apiVersion'' = JStr a \<longrightarrow>
            to_string rt (get_prop (loadConfig rt w) ''shopDomain'') = Inr d \<and>
            to_string rt (get_prop (loadConfig rt w) ''apiVersion'') = Inr a) \<and>
         (to_string rt (get_prop (loadConfig rt w) ''shopDomain'') = Inl e \<or>
          to_string rt (get_prop (loadConfig rt w) ''shopDomain'') = Inr d \<and>
          to_string rt (get_prop (loadConfig rt w) ''apiVersion'') = Inl e \<longrightarrow>
            queryStorefrontApi rt w query variables =
              (Inl (Error (''API request failed: '' @ message e)), []))"
proof -
  have post: "queryStorefrontApi rt w query variables =
       (case fetch w (storefront_request rt d a (get_prop (loadConfig rt w) ''accessToken'')
                        query variables) of
          Inl e \<Rightarrow> Inl (Error (''API request failed: '' @ message e))
        | Inr response \<Rightarrow>
            (case json response of
               Inl e \<Rightarrow> Inl (Error (''API request failed: '' @ message e))
             | Inr data \<Rightarrow> Inr (text_result (JSON_stringify rt 2 data))),
        [storefront_request rt d a (get_prop (loadConfig rt w) ''accessToken'')
           query variables])"
    if "to_string rt (get_prop (loadConfig rt w) ''shopDomain'') = Inr d"
      and "to_string rt (get_prop (loadConfig rt w) ''apiVersion'') = Inr a"
    using assms that by (rule queryStorefrontApi_post)
  have r: "storefront_request rt d a (get_prop (loadConfig rt w) ''accessToken'')
             query variables =
           \<lparr>req_url = ''https://'' @ d @ ''/api/'' @ a @ ''/graphql.json'',
            req_method = ''POST'',
            req_headers = [(''Content-Type'', JStr ''application/json''),
                           (''X-Shopify-Storefront-Access-Token'',
                              get_prop (loadConfig rt w) ''accessToken'')],
            req_body = JSON_stringify rt 0
                         (JObj [(''query'', query),
                                (''variables'',
                                   if truthy variables then variables else JObj [])])\<rparr>"
    by (simp add: storefront_request_def)
  have c1: "to_string rt (get_prop (loadConfig rt w) ''shopDomain'') = Inr d \<and>
          to_string rt (get_prop (loadConfig rt w) ''apiVersion'') = Inr a \<longrightarrow>
            snd (queryStorefrontApi rt w query variables) =
              [storefront_request rt d a (get_prop (loadConfig rt w) ''accessToken'')
                 query variables] \<and>
            (fetch w (storefront_request rt d a (get_prop (loadConfig rt w) ''accessToken'')
                        query variables) = Inr response \<and>
             json response = Inr data \<longrightarrow>
               fst (queryStorefrontApi rt w query variables) =
                 Inr \<lparr>content = [\<lparr>c_type = ''text'', c_text = JSON_stringify rt 2 data\<rparr>],
                      isError = None\<rparr>) \<and>
            (fetch w (storefront_request rt d a (get_prop (loadConfig rt w) ''accessToken'')
                        query variables) = Inl e \<longrightarrow>
               fst (queryStorefrontApi rt w query variables) =
                 Inl (Error (''API request failed: '' @ message e))) \<and>
            (fetch w (storefront_request rt d a (get_prop (loadConfig rt w) ''accessToken'')
                        query variables) = Inr response \<and>
             json response = Inl e \<longrightarrow>
               fst (queryStorefrontApi rt w query variables) =
                 Inl (Error (''API request failed: '' @ message e)))"
  proof (intro impI, elim conjE)
    assume d: "to_string rt (get_prop (loadConfig rt w) ''shopDomain'') = Inr d"
      and a: "to_string rt (get_prop (loadConfig rt w) ''apiVersion'') = Inr a"
    show "snd (queryStorefrontApi rt w query variables) =
              [storefront_request rt d a (get_prop (loadConfig rt w) ''accessToken'')
                 query variables] \<and>
            (fetch w (storefront_request rt d a (get_prop (loadConfig rt w) ''accessToken'')
                        query variables) = Inr response \<and>
             json response = Inr data \<longrightarrow>
               fst (queryStorefrontApi rt w query variables) =
                 Inr \<lparr>content = [\<lparr>c_type = ''text'', c_text = JSON_stringify rt 2 data\<rparr>],
                      isError = None\<rparr>) \<and>
            (fetch w (storefront_request rt d a (get_prop (loadConfig rt w) ''accessToken'')
                        query variables) = Inl e \<longrightarrow>
               fst (queryStorefrontApi rt w query variables) =
                 Inl (Error (''API request failed: '' @ message e))) \<and>
            (fetch w (storefront_request rt d a (get_prop (loadConfig rt w) ''accessToken'')
                        query variables) = Inr response \<and>
             json response = Inl e \<longrightarrow>
               fst (queryStorefrontApi rt w query variables) =
                 Inl (Error (''API request failed: '' @ message e)))"
      unfolding post [OF d a] by (simp add: text_result_def)
  qed
  have c3: "get_prop (loadConfig rt w) ''shopDomain'' = JStr d \<and>
          get_prop (loadConfig rt w) ''apiVersion'' = JStr a \<longrightarrow>
            to_string rt (get_prop (loadConfig rt w) ''shopDomain'') = Inr d \<and>
            to_string rt (get_prop (loadConfig rt w) ''apiVersion'') = Inr a"
    by simp
  have c4: "to_string rt (get_prop (loadConfig rt w) ''shopDomain'') = Inl e \<or>
          to_string rt (get_prop (loadConfig rt w) ''shopDomain'') = Inr d \<and>
          to_string rt (get_prop (loadConfig rt w) ''apiVersion'') = Inl e \<longrightarrow>
            queryStorefrontApi rt w query variables =
              (Inl (Error (''API request failed: '' @ message e)), [])"
    using assms queryStorefrontApi_no_domain [of query rt w e variables]
      queryStorefrontApi_no_version [of query rt w d e variables]
    by blast
  from c1 c3 c4 show ?thesis unfolding r [symmetric] by (intro conjI) simp_all
qed

theorem one_post_per_query_witness:
  "truthy (JStr ''{ shop { name } }'') \<and>
   truthy (loadConfig example_runtime env_world) \<and>
   to_string example_runtime (get_prop (loadConfig example_runtime env_world) ''shopDomain'') =
     Inr ''demo.myshopify.com'' \<and>
   to_string example_runtime (get_prop (loadConfig example_runtime env_world) ''apiVersion'') =
     Inr ''2024-01'' \<and>
   queryStorefrontApi example_runtime
       (env_world\<lparr>fetch := (\<lambda>r. Inr \<lparr>json = Inr (JObj [(''data'', JNull)])\<rparr>)\<rparr>)
       (JStr ''{ shop { name } }'') JUndefined =
     (Inr \<lparr>content = [\<lparr>c_type = ''text'',
             c_text = JSON_stringify example_runtime 2 (JObj [(''data'', JNull)])\<rparr>],
           isError = None\<rparr>,
      [\<lparr>req_url = ''https://demo.myshopify.com/api/2024-01/graphql.json'',
        req_method = ''POST'',
        req_headers = [(''Content-Type'', JStr ''application/json''),
                       (''X-Shopify-Storefront-Access-Token'', JStr ''secret'')],
        req_body = JSON_stringify example_runtime 0
                     (JObj [(''query'', JStr ''{ shop { name } }''),
                            (''variables'', JObj [])])\<rparr>]) \<and>
   queryStorefrontApi example_runtime env_world (JStr ''{ shop { name } }'') JUndefined =
     (Inl (Error ''API request failed: fetch failed''),
      [\<lparr>req_url = ''https://demo.myshopify.com/api/2024-01/graphql.json'',
        req_method = ''POST'',
        req_headers = [(''Content-Type'', JStr ''application/json''),
                       (''X-Shopify-Storefront-Access-Token'', JStr ''secret'')],
        req_body = JSON_stringify example_runtime 0
                     (JObj [(''query'', JStr ''{ shop { name } }''),
                            (''variables'', JObj [])])\<rparr>]) \<and>
   to_string example_runtime
     (get_prop (loadConfig example_runtime (config_world empty_world odd_config_text))
        ''shopDomain'') =
     Inl (Error ''Cannot convert object to primitive value'') \<and>
   queryStorefrontApi example_runtime (config_world empty_world odd_config_text)
       (JStr ''{ shop { name } }'') JUndefined =
     (Inl (Error ''API request failed: Cannot convert object to primitive value''), [])"
proof -
  let ?q = "JStr ''{ shop { name } }''"
  let ?w = "env_world\<lparr>fetch := (\<lambda>r. Inr \<lparr>json = Inr (JObj [(''data'', JNull)])\<rparr>)\<rparr>"
  let ?o = "config_world empty_world odd_config_text"
  note cfg = example_loadConfig_env
  have cfg': "loadConfig example_runtime ?w = loadConfig example_runtime env_world"
    unfolding cfg
    by (simp add: loadConfig_def env_world_def empty_world_def example_runtime_def
        getenv_def js_or_def)
  have h1: "truthy ?q" by simp
  have h2: "truthy (loadConfig example_runtime env_world)" by (simp add: cfg)
  have h3: "truthy (loadConfig example_runtime ?w)" by (simp add: cfg' cfg)
  have h4: "truthy (loadConfig example_runtime ?o)"
    by (simp add: example_odd_config odd_config_def)
  have f1: "fetch ?w r = Inr \<lparr>json = Inr (JObj [(''data'', JNull)])\<rparr>" for r by simp
  have f2: "fetch env_world r = Inl (Error ''fetch failed'')" for r
    by (simp add: env_world_def empty_world_def)
  have o: "to_string example_runtime (get_prop (loadConfig example_runtime ?o) ''shopDomain'') =
     Inl (Error ''Cannot convert object to primitive value'')"
    by (simp add: example_odd_config odd_config_def)
  show ?thesis
    using h1 h2 o
      one_post_per_query [OF h1 h3, of "''demo.myshopify.com''" "''2024-01''" JUndefined
        "\<lparr>json = Inr (JObj [(''data'', JNull)])\<rparr>" "JObj [(''data'', JNull)]" "Error []"]
      one_post_per_query [OF h1 h2, of "''demo.myshopify.com''" "''2024-01''" JUndefined
        "\<lparr>json = Inr JNull\<rparr>" JNull "Error ''fetch failed''"]
      one_post_per_query [OF h1 h4, of "[]" "[]" JUndefined
        "\<lparr>json = Inr JNull\<rparr>" JNull "Error ''Cannot convert object to primitive value''"]
    by (simp add: f1 f2 cfg cfg' prod_eq_iff)
qed

section \<open>A configuration file is taken as it is\<close>

text \<open>
  Claim C10. When the configuration file exists and parses, \<^verbatim>\<open>loadConfig\<close> returns the
  parsed value unvalidated, whatever the environment holds. So a file holding \<^verbatim>\<open>{}\<close>
  gives a configuration whose fields are \<^verbatim>\<open>undefined\<close> and are written into the request
  URL, and a file holding \<^verbatim>\<open>null\<close> gives the missing-configuration answer without any
  fallback to the environment.
\<close>

theorem config_file_taken_unvalidated:
  assumes "existsSync w (config_file_path rt)"
    and "readFileSync w (config_file_path rt) = Inr s"
    and "JSON_parse rt s = Inr v"
  shows "loadConfig rt (w\<lparr>environ := e\<rparr>) = v \<and>
         (v = JObj [] \<and> truthy query \<longrightarrow>
            map req_url (snd (queryStorefrontApi rt (w\<lparr>environ := e\<rparr>) query variables)) =
              [''https://undefined/api/undefined/graphql.json'']) \<and>
         (v = JNull \<and> truthy query \<longrightarrow>
            queryStorefrontApi rt (w\<lparr>environ := e\<rparr>) query variables =
              (Inr \<lparr>content = [\<lparr>c_type = ''text'',
                      c_text = ''Storefront API configuration not found. Please set up your access token first.''\<rparr>],
                    isError = None\<rparr>, []))"
proof -
  have cfg: "loadConfig rt (w\<lparr>environ := e\<rparr>) = v"
    using assms by (simp add: loadConfig_def config_file_path_def)
  have a: "map req_url (snd (queryStorefrontApi rt (w\<lparr>environ := e\<rparr>) query variables)) =
             [''https://undefined/api/undefined/graphql.json'']"
    if "v = JObj []" "truthy query"
    using that cfg
    by (simp add: queryStorefrontApi_post [where d = "''undefined''" and a = "''undefined''"]
        storefront_request_def)
  have b: "queryStorefrontApi rt (w\<lparr>environ := e\<rparr>) query variables =
              (Inr \<lparr>content = [\<lparr>c_type = ''text'',
                      c_text = ''Storefront API configuration not found. Please set up your access token first.''\<rparr>],
                    isError = None\<rparr>, [])"
    if "v = JNull" "truthy query"
    using that cfg
    by (simp add: queryStorefrontApi_no_config text_result_def config_missing_text_def)
  from cfg a b show ?thesis by blast
qed

theorem config_file_taken_unvalidated_witness:
  "existsSync (config_world empty_world ''{}'') (config_file_path example_runtime) \<and>
   readFileSync (config_world empty_world ''{}'') (config_file_path example_runtime) = Inr ''{}'' \<and>
   JSON_parse example_runtime ''{}'' = Inr (JObj []) \<and>
   JSON_parse example_runtime ''null'' = Inr JNull \<and>
   loadConfig example_runtime (config_world empty_world ''{}''\<lparr>environ := environ env_world\<rparr>)
     = JObj [] \<and>
   map req_url (snd (queryStorefrontApi example_runtime
        (config_world empty_world ''{}''\<lparr>environ := environ env_world\<rparr>)
        (JStr ''{ shop { name } }'') JUndefined)) =
     [''https://undefined/api/undefined/graphql.json''] \<and>
   loadConfig example_runtime (config_world empty_world ''null''\<lparr>environ := environ env_world\<rparr>)
     = JNull \<and>
   queryStorefrontApi example_runtime
        (config_world empty_world ''null''\<lparr>environ := environ env_world\<rparr>)
        (JStr ''{ shop { name } }'') JUndefined =
     (Inr \<lparr>content = [\<lparr>c_type = ''text'',
             c_text = ''Storefront API configuration not found. Please set up your access token first.''\<rparr>],
           isError = None\<rparr>, [])"
proof -
  have e: "existsSync (config_world empty_world s) (config_file_path example_runtime)" for s
    by (simp add: config_world_def)
  have r: "readFileSync (config_world empty_world s) (config_file_path example_runtime) = Inr s"
    for s by (simp add: config_world_def)
  have p1: "JSON_parse example_runtime ''{}'' = Inr (JObj [])"
    and p2: "JSON_parse example_runtime ''null'' = Inr JNull"
    by (simp_all add: example_parse_def)
  show ?thesis
    using e [of "''{}''"] r [of "''{}''"] p1 p2
      config_file_taken_unvalidated [OF e r p1, of "environ env_world"
        "JStr ''{ shop { name } }''" JUndefined]
      config_file_taken_unvalidated [OF e r p2, of "environ env_world"
        "JStr ''{ shop { name } }''" JUndefined]
    by simp
qed

section \<open>Reading a resource\<close>





section \<open>The convenience tools delegate\<close>

lemma documents_nonempty:
  "product_document \<noteq> []" "collection_document \<noteq> []" "search_document \<noteq> []"
  by (simp_all add: product_document_def collection_document_def search_document_def nl_def)

text \<open>
  Claim C9 as stated, "for every handle, \<^verbatim>\<open>get_product(handle)\<close> equals \<^verbatim>\<open>query_storefront_api\<close> on
  the product document" fails at the empty handle: \<^verbatim>\<open>getProduct\<close> rejects it as it rejects
  a missing one, where the query tool would send the request.
\<close>

theorem empty_handle_not_delegated:
  "getProduct example_runtime env_world (JStr '''') =
     (Inl (Error ''Product handle is required''), []) \<and>
   getProduct example_runtime env_world (JStr '''') \<noteq>
     queryStorefrontApi example_runtime env_world (JStr product_document)
       (JObj [(''handle'', JStr '''')]) \<and>
   callTool example_runtime env_world ''get_product'' (JObj [(''handle'', JStr '''')]) \<noteq>
     callTool example_runtime env_world ''query_storefront_api''
       (JObj [(''query'', JStr product_document),
              (''variables'', JObj [(''handle'', JStr '''')])])"
proof -
  have q: "snd (queryStorefrontApi example_runtime env_world (JStr product_document)
       (JObj [(''handle'', JStr '''')])) \<noteq> []"
    by (simp add: queryStorefrontApi_post [where d = "''demo.myshopify.com''" and a = "''2024-01''"]
        example_loadConfig_env documents_nonempty)
  have g: "getProduct example_runtime env_world (JStr '''') =
     (Inl (Error ''Product handle is required''), [])"
    by (simp add: getProduct_def)
  have c1: "snd (callTool example_runtime env_world ''get_product''
                  (JObj [(''handle'', JStr '''')])) = []"
    by (simp add: callTool_def callTool_try_def g)
  have c2: "snd (callTool example_runtime env_world ''query_storefront_api''
       (JObj [(''query'', JStr product_document),
              (''variables'', JObj [(''handle'', JStr '''')])])) \<noteq> []"
    using q by (auto simp: callTool_def callTool_try_def split: prod.splits sum.splits)
  from c1 c2 have "callTool example_runtime env_world ''get_product''
      (JObj [(''handle'', JStr '''')]) \<noteq>
     callTool example_runtime env_world ''query_storefront_api''
       (JObj [(''query'', JStr product_document),
              (''variables'', JObj [(''handle'', JStr '''')])])"
    by metis
  with q g show ?thesis by (auto simp: prod_eq_iff)
qed

text \<open>
  Claim C9, amended. For every handle and search query that is truthy (in particular every
  non-empty string) and every value of \<^verbatim>\<open>first\<close>, \<^verbatim>\<open>get_product\<close>, \<^verbatim>\<open>get_collection\<close>
  and \<^verbatim>\<open>search_products\<close> return exactly what \<^verbatim>\<open>query_storefront_api\<close> returns on the
  fixed document with the variables \<^verbatim>\<open>{handle}\<close>, \<^verbatim>\<open>{handle, first}\<close> and
  \<^verbatim>\<open>{query, first}\<close>, with \<^verbatim>\<open>first\<close> equal to 20 when it is omitted, and issue exactly the
  same requests. For every handle or search query that is falsy (absent, or the empty string,
  zero, \<^verbatim>\<open>false\<close>, \<^verbatim>\<open>null\<close>), each of the three tools fails with its own
  required-argument error and issues no request.
\<close>

theorem convenience_tools_delegate:
  "(truthy handle \<longrightarrow>
      getProduct rt w handle =
        queryStorefrontApi rt w (JStr product_document) (JObj [(''handle'', handle)])) \<and>
   (truthy handle \<longrightarrow>
      getCollection rt w handle first =
        queryStorefrontApi rt w (JStr collection_document)
          (JObj [(''handle'', handle),
                 (''first'', if first = JUndefined then JNum 20 else first)])) \<and>
   (truthy query \<longrightarrow>
      searchProducts rt w query first =
        queryStorefrontApi rt w (JStr search_document)
          (JObj [(''query'', query),
                 (''first'', if first = JUndefined then JNum 20 else first)])) \<and>
   (truthy (get_prop args ''handle'') \<longrightarrow>
      callTool rt w ''get_product'' args =
        callTool rt w ''query_storefront_api''
          (JObj [(''query'', JStr product_document),
                 (''variables'', JObj [(''handle'', get_prop args ''handle'')])])) \<and>
   (truthy (get_prop args ''handle'') \<longrightarrow>
      callTool rt w ''get_collection'' args =
        callTool rt w ''query_storefront_api''
          (JObj [(''query'', JStr collection_document),
                 (''variables'',
                    JObj [(''handle'', get_prop args ''handle''),
                          (''first'', if get_prop args ''first'' = JUndefined then JNum 20
                                      else get_prop args ''first'')])])) \<and>
   (truthy (get_prop args ''query'') \<longrightarrow>
      callTool rt w ''search_products'' args =
        callTool rt w ''query_storefront_api''
          (JObj [(''query'', JStr search_document),
                 (''variables'',
                    JObj [(''query'', get_prop args ''query''),
                          (''first'', if get_prop args ''first'' = JUndefined then JNum 20
                                      else get_prop args ''first'')])])) \<and>
   (\<not> truthy handle \<longrightarrow>
      getProduct rt w handle = (Inl (Error ''Product handle is required''), []) \<and>
      getCollection rt w handle first = (Inl (Error ''Collection handle is required''), [])) \<and>
   (\<not> truthy query \<longrightarrow>
      searchProducts rt w query first = (Inl (Error ''Search query is required''), [])) \<and>
   (\<not> truthy (get_prop args ''handle'') \<longrightarrow>
      callTool rt w ''get_product'' args =
        (\<lparr>content = [\<lparr>c_type = ''text'', c_text = ''Error: Product handle is required''\<rparr>],
          isError = Some True\<rparr>, []) \<and>
      callTool rt w ''get_collection'' args =
        (\<lparr>content = [\<lparr>c_type = ''text'', c_text = ''Error: Collection handle is required''\<rparr>],
          isError = Some True\<rparr>, [])) \<and>
   (\<not> truthy (get_prop args ''query'') \<longrightarrow>
      callTool rt w ''search_products'' args =
        (\<lparr>content = [\<lparr>c_type = ''text'', c_text = ''Error: Search query is required''\<rparr>],
          isError = Some True\<rparr>, []))"
  by (simp add: getProduct_def getCollection_def searchProducts_def default_param_def
      callTool_def callTool_try_def error_result_def Let_def)

theorem convenience_tools_delegate_witness:
  "truthy (JStr ''shoe'') \<and>
   get_prop (JObj [(''handle'', JStr ''shoe'')]) ''handle'' = JStr ''shoe'' \<and>
   get_prop (JObj [(''query'', JStr ''shoe'')]) ''query'' = JStr ''shoe'' \<and>
   callTool example_runtime env_world ''get_product'' (JObj [(''handle'', JStr ''shoe'')]) =
     callTool example_runtime env_world ''query_storefront_api''
       (JObj [(''query'', JStr product_document),
              (''variables'', JObj [(''handle'', JStr ''shoe'')])]) \<and>
   callTool example_runtime env_world ''get_collection'' (JObj [(''handle'', JStr ''shoe'')]) =
     callTool example_runtime env_world ''query_storefront_api''
       (JObj [(''query'', JStr collection_document),
              (''variables'', JObj [(''handle'', JStr ''shoe''), (''first'', JNum 20)])]) \<and>
   callTool example_runtime env_world ''search_products'' (JObj [(''query'', JStr ''shoe'')]) =
     callTool example_runtime env_world ''query_storefront_api''
       (JObj [(''query'', JStr search_document),
              (''variables'', JObj [(''query'', JStr ''shoe''), (''first'', JNum 20)])]) \<and>
   \<not> truthy (JStr '''') \<and> \<not> truthy (JNum 0) \<and>
   get_prop (JObj [(''handle'', JStr ''''), (''query'', JNum 0)]) ''handle'' = JStr '''' \<and>
   get_prop (JObj [(''handle'', JStr ''''), (''query'', JNum 0)]) ''query'' = JNum 0 \<and>
   callTool example_runtime env_world ''get_product''
       (JObj [(''handle'', JStr ''''), (''query'', JNum 0)]) =
     (\<lparr>content = [\<lparr>c_type = ''text'', c_text = ''Error: Product handle is required''\<rparr>],
       isError = Some True\<rparr>, []) \<and>
   callTool example_runtime env_world ''get_collection''
       (JObj [(''handle'', JStr ''''), (''query'', JNum 0)]) =
     (\<lparr>content = [\<lparr>c_type = ''text'', c_text = ''Error: Collection handle is required''\<rparr>],
       isError = Some True\<rparr>, []) \<and>
   callTool example_runtime env_world ''search_products''
       (JObj [(''handle'', JStr ''''), (''query'', JNum 0)]) =
     (\<lparr>content = [\<lparr>c_type = ''text'', c_text = ''Error: Search query is required''\<rparr>],
       isError = Some True\<rparr>, [])"
  using convenience_tools_delegate [of "JStr ''shoe''" example_runtime env_world JUndefined
      "JStr ''shoe''" "JObj [(''handle'', JStr ''shoe'')]"]
    convenience_tools_delegate [of "JStr ''shoe''" example_runtime env_world JUndefined
      "JStr ''shoe''" "JObj [(''query'', JStr ''shoe'')]"]
    convenience_tools_delegate [of "JStr ''''" example_runtime env_world JUndefined
      "JNum 0" "JObj [(''handle'', JStr ''''), (''query'', JNum 0)]"]
  by simp

section \<open>The build status\<close>

lemma buildStatus_no_dir:
  "\<not> existsSync w (wasm_dir rt) \<Longrightarrow>
     buildStatus rt w =
       Inr (JObj [(''built'', JBool False), (''files'', JArr []),
                  (''missing'', JArr [JStr ''storefront_api_wasm.js'',
                                      JStr ''storefront_api_wasm_bg.wasm''])])"
  by (simp add: buildStatus_def wasm_dir_def expectedFiles_def)

lemma buildStatus_dir:
  assumes "existsSync w (wasm_dir rt)" and "readdirSync w (wasm_dir rt) = Inr files"
  shows "buildStatus rt w =
     (case check_expected rt w (wasm_dir rt) files expectedFiles
             (JObj [(''built'', JBool False), (''files'', JArr (map JStr files)),
                    (''missing'', JArr [])]) of
        Inl e \<Rightarrow> Inl e
      | Inr status' \<Rightarrow>
          Inr (set_prop status' ''built'' (JBool (get_prop status' ''missing'' = JArr []))))"
  using assms by (simp add: buildStatus_def wasm_dir_def)

lemma toISOString_valid:
  "\<bar>t\<bar> \<le> 8640000000000000 \<Longrightarrow> toISOString rt t = Inr (Date_toISOString rt t)"
  by (simp add: toISOString_def)

lemma toISOString_invalid:
  "8640000000000000 < \<bar>t\<bar> \<Longrightarrow> toISOString rt t = Inl (Error ''Invalid time value'')"
  by (simp add: toISOString_def)

lemma buildStatus_only_js:
  assumes "existsSync w (wasm_dir rt)" and "readdirSync w (wasm_dir rt) = Inr files"
    and "''storefront_api_wasm.js'' \<in> set files"
    and "''storefront_api_wasm_bg.wasm'' \<notin> set files"
    and "statSync w (join_paths rt [wasm_dir rt, ''storefront_api_wasm.js'']) = Inr js"
    and "\<bar>st_mtime js\<bar> \<le> 8640000000000000"
  shows "buildStatus rt w =
     Inr (JObj [(''built'', JBool False),
                (''files'', JArr (map JStr files)),
                (''missing'', JArr [JStr ''storefront_api_wasm_bg.wasm'']),
                (''storefront_api_wasm.js'',
                   JObj [(''exists'', JBool True), (''size'', JNum (of_nat (st_size js))),
                         (''modified'', JStr (Date_toISOString rt (st_mtime js)))])])"
  using assms(3-6)
  by (simp add: buildStatus_dir [OF assms(1,2)] expectedFiles_def toISOString_valid)

lemma buildStatus_both:
  assumes "existsSync w (wasm_dir rt)" and "readdirSync w (wasm_dir rt) = Inr files"
    and "''storefront_api_wasm.js'' \<in> set files"
    and "''storefront_api_wasm_bg.wasm'' \<in> set files"
    and "statSync w (join_paths rt [wasm_dir rt, ''storefront_api_wasm.js'']) = Inr js"
    and "statSync w (join_paths rt [wasm_dir rt, ''storefront_api_wasm_bg.wasm'']) = Inr wasm"
    and "\<bar>st_mtime js\<bar> \<le> 8640000000000000"
    and "\<bar>st_mtime wasm\<bar> \<le> 8640000000000000"
  shows "buildStatus rt w =
     Inr (JObj [(''built'', JBool True),
                (''files'', JArr (map JStr files)),
                (''missing'', JArr []),
                (''storefront_api_wasm.js'',
                   JObj [(''exists'', JBool True), (''size'', JNum (of_nat (st_size js))),
                         (''modified'', JStr (Date_toISOString rt (st_mtime js)))]),
                (''storefront_api_wasm_bg.wasm'',
                   JObj [(''exists'', JBool True), (''size'', JNum (of_nat (st_size wasm))),
                         (''modified'', JStr (Date_toISOString rt (st_mtime wasm)))])])"
  using assms(3-8)
  by (simp add: buildStatus_dir [OF assms(1,2)] expectedFiles_def toISOString_valid)

lemma buildStatus_built_iff:
  assumes "buildStatus rt w = Inr status"
  shows "get_prop status ''built'' =
     JBool (existsSync w (wasm_dir rt) \<and>
            (\<exists>files. readdirSync w (wasm_dir rt) = Inr files \<and>
               ''storefront_api_wasm.js'' \<in> set files \<and>
               ''storefront_api_wasm_bg.wasm'' \<in> set files))"
proof (cases "existsSync w (wasm_dir rt)")
  case False
  with assms show ?thesis by (auto simp: buildStatus_no_dir)
next
  case True
  show ?thesis
  proof (cases "readdirSync w (wasm_dir rt)")
    case (Inl e)
    with True assms show ?thesis by (simp add: buildStatus_def wasm_dir_def)
  next
    case (Inr files)
    from assms show ?thesis
      unfolding buildStatus_dir [OF True Inr]
      using True Inr
      by (auto simp: expectedFiles_def Let_def split: sum.splits if_splits)
  qed
qed

text \<open>A listed expected file whose entry cannot be built: the first failure leaves the loop.\<close>

lemma buildStatus_js_fails:
  assumes "existsSync w (wasm_dir rt)" and "readdirSync w (wasm_dir rt) = Inr files"
    and "''storefront_api_wasm.js'' \<in> set files"
  shows "statSync w (join_paths rt [wasm_dir rt, ''storefront_api_wasm.js'']) = Inl e \<Longrightarrow>
           buildStatus rt w = Inl e"
    and "statSync w (join_paths rt [wasm_dir rt, ''storefront_api_wasm.js'']) = Inr js \<Longrightarrow>
         8640000000000000 < \<bar>st_mtime js\<bar> \<Longrightarrow>
           buildStatus rt w = Inl (Error ''Invalid time value'')"
  using assms(3)
  by (simp_all add: buildStatus_dir [OF assms(1,2)] expectedFiles_def toISOString_invalid)

lemma buildStatus_listed_fails:
  assumes "existsSync w (wasm_dir rt)" and "readdirSync w (wasm_dir rt) = Inr files"
    and "name \<in> set expectedFiles" and "name \<in> set files"
    and "statSync w (join_paths rt [wasm_dir rt, name]) = Inl e \<or>
         statSync w (join_paths rt [wasm_dir rt, name]) = Inr st \<and>
         8640000000000000 < \<bar>st_mtime st\<bar>"
  shows "\<exists>e'. buildStatus rt w = Inl e'"
  using assms(3-5)
  unfolding buildStatus_dir [OF assms(1,2)]
  by (auto simp: expectedFiles_def Let_def toISOString_def split: sum.splits if_splits)

lemma example_wasm_dir [simp]:
  "wasm_dir example_runtime = ''/srv/mcp-server/dist/../../Liquid-main/assets/wasm''"
  by (simp add: wasm_dir_def example_runtime_def)

lemma example_join [simp]: "join_paths example_runtime = join_with ''/''"
  by (simp add: example_runtime_def)

lemma far_future_no_report:
  "checkBuildStatus example_runtime far_future_world = Inl (Error ''Invalid time value'')"
proof -
  have e: "existsSync far_future_world (wasm_dir example_runtime)"
    and r: "readdirSync far_future_world (wasm_dir example_runtime) =
             Inr [''storefront_api_wasm.js'', ''storefront_api_wasm_bg.wasm'']"
    by (simp_all add: far_future_world_def wasm_world_def)
  have s: "statSync far_future_world p = Inr \<lparr>st_size = 2048, st_mtime = 9000000000000000\<rparr>"
    for p by (simp add: far_future_world_def)
  have "buildStatus example_runtime far_future_world = Inl (Error ''Invalid time value'')"
    by (rule buildStatus_js_fails(2) [OF e r _ s]) simp_all
  then show ?thesis by (simp add: checkBuildStatus_def)
qed

text \<open>
  Claim C7 as stated, "with both files present it reports \<^verbatim>\<open>built: true\<close>", fails when a
  listed file has a modification time outside the range of a \<^verbatim>\<open>Date\<close>: then
  \<^verbatim>\<open>stats.mtime.toISOString()\<close> throws, no report is produced, and the dispatcher answers
  \<^verbatim>\<open>Error: Invalid time value\<close>.
\<close>

theorem out_of_range_mtime_no_report:
  "existsSync far_future_world (wasm_dir example_runtime) \<and>
   readdirSync far_future_world (wasm_dir example_runtime) =
     Inr [''storefront_api_wasm.js'', ''storefront_api_wasm_bg.wasm''] \<and>
   statSync far_future_world
       (join_paths example_runtime [wasm_dir example_runtime, ''storefront_api_wasm.js'']) =
     Inr \<lparr>st_size = 2048, st_mtime = 9000000000000000\<rparr> \<and>
   statSync far_future_world
       (join_paths example_runtime [wasm_dir example_runtime, ''storefront_api_wasm_bg.wasm'']) =
     Inr \<lparr>st_size = 2048, st_mtime = 9000000000000000\<rparr> \<and>
   checkBuildStatus example_runtime far_future_world = Inl (Error ''Invalid time value'') \<and>
   callTool example_runtime far_future_world ''check_build_status'' (JObj []) =
     (\<lparr>content = [\<lparr>c_type = ''text'', c_text = ''Error: Invalid time value''\<rparr>],
       isError = Some True\<rparr>, [])"
proof -
  have e: "existsSync far_future_world (wasm_dir example_runtime)"
    and r: "readdirSync far_future_world (wasm_dir example_runtime) =
             Inr [''storefront_api_wasm.js'', ''storefront_api_wasm_bg.wasm'']"
    by (simp_all add: far_future_world_def wasm_world_def)
  have s: "statSync far_future_world p = Inr \<lparr>st_size = 2048, st_mtime = 9000000000000000\<rparr>"
    for p by (simp add: far_future_world_def)
  from e r far_future_no_report show ?thesis
    by (simp add: s callTool_def callTool_try_def error_result_def)
qed

text \<open>
  Claim C7, amended. Whenever \<^verbatim>\<open>check_build_status\<close> produces a report, the report has
  \<^verbatim>\<open>built: true\<close> exactly when the output directory exists and lists both
  \<^verbatim>\<open>storefront_api_wasm.js\<close> and \<^verbatim>\<open>storefront_api_wasm_bg.wasm\<close>, and it is returned
  pretty-printed. Provided \<^verbatim>\<open>statSync\<close> succeeds on every listed expected file and its
  modification time lies within 8.64e15 milliseconds of the epoch: with only the first file
  listed the report is \<^verbatim>\<open>built: false\<close>, \<^verbatim>\<open>missing\<close> holding the second name; with both
  listed it is \<^verbatim>\<open>built: true\<close>, \<^verbatim>\<open>missing: []\<close>, and each file has an entry with
  \<^verbatim>\<open>exists: true\<close>, its size as a number and its modification time as printed by
  \<^verbatim>\<open>toISOString\<close>. When \<^verbatim>\<open>statSync\<close> fails on a listed expected file, or its
  modification time lies outside that range, no report is produced: the method throws and
  the dispatcher answers with \<open>isError\<close> true and \<^verbatim>\<open>Error: <message>\<close> (for the first file
  with a time out of range, \<^verbatim>\<open>Invalid time value\<close>).
\<close>

theorem check_build_status_report:
  "(buildStatus rt w = Inr status \<longrightarrow>
      get_prop status ''built'' =
        JBool (existsSync w (wasm_dir rt) \<and>
               (\<exists>files. readdirSync w (wasm_dir rt) = Inr files \<and>
                  ''storefront_api_wasm.js'' \<in> set files \<and>
                  ''storefront_api_wasm_bg.wasm'' \<in> set files)) \<and>
      checkBuildStatus rt w =
        Inr \<lparr>content = [\<lparr>c_type = ''text'', c_text = JSON_stringify rt 2 status\<rparr>],
             isError = None\<rparr>) \<and>
   (existsSync w (wasm_dir rt) \<and> readdirSync w (wasm_dir rt) = Inr files \<and>
    ''storefront_api_wasm.js'' \<in> set files \<and> ''storefront_api_wasm_bg.wasm'' \<notin> set files \<and>
    statSync w (join_paths rt [wasm_dir rt, ''storefront_api_wasm.js'']) = Inr js \<and>
    \<bar>st_mtime js\<bar> \<le> 8640000000000000 \<longrightarrow>
      buildStatus rt w =
        Inr (JObj [(''built'', JBool False),
                   (''files'', JArr (map JStr files)),
                   (''missing'', JArr [JStr ''storefront_api_wasm_bg.wasm'']),
                   (''storefront_api_wasm.js'',
                      JObj [(''exists'', JBool True), (''size'', JNum (of_nat (st_size js))),
                            (''modified'', JStr (Date_toISOString rt (st_mtime js)))])])) \<and>
   (existsSync w (wasm_dir rt) \<and> readdirSync w (wasm_dir rt) = Inr files \<and>
    ''storefront_api_wasm.js'' \<in> set files \<and> ''storefront_api_wasm_bg.wasm'' \<in> set files \<and>
    statSync w (join_paths rt [wasm_dir rt, ''storefront_api_wasm.js'']) = Inr js \<and>
    statSync w (join_paths rt [wasm_dir rt, ''storefront_api_wasm_bg.wasm'']) = Inr wasm \<and>
    \<bar>st_mtime js\<bar> \<le> 8640000000000000 \<and> \<bar>st_mtime wasm\<bar> \<le> 8640000000000000 \<longrightarrow>
      buildStatus rt w =
        Inr (JObj [(''built'', JBool True),
                   (''files'', JArr (map JStr files)),
                   (''missing'', JArr []),
                   (''storefront_api_wasm.js'',
                      JObj [(''exists'', JBool True), (''size'', JNum (of_nat (st_size js))),
                            (''modified'', JStr (Date_toISOString rt (st_mtime js)))]),
                   (''storefront_api_wasm_bg.wasm'',
                      JObj [(''exists'', JBool True), (''size'', JNum (of_nat (st_size wasm))),
                            (''modified'', JStr (Date_toISOString rt (st_mtime wasm)))])])) \<and>
   (existsSync w (wasm_dir rt) \<and> readdirSync w (wasm_dir rt) = Inr files \<and>
    name \<in> set expectedFiles \<and> name \<in> set files \<and>
    (statSync w (join_paths rt [wasm_dir rt, name]) = Inl e \<or>
     statSync w (join_paths rt [wasm_dir rt, name]) = Inr st \<and>
     8640000000000000 < \<bar>st_mtime st\<bar>) \<longrightarrow>
      (\<exists>e'. checkBuildStatus rt w = Inl e' \<and>
         callTool rt w ''check_build_status'' args =
           (\<lparr>content = [\<lparr>c_type = ''text'', c_text = ''Error: '' @ message e'\<rparr>],
             isError = Some True\<rparr>, []))) \<and>
   (existsSync w (wasm_dir rt) \<and> readdirSync w (wasm_dir rt) = Inr files \<and>
    ''storefront_api_wasm.js'' \<in> set files \<and>
    statSync w (join_paths rt [wasm_dir rt, ''storefront_api_wasm.js'']) = Inr js \<and>
    8640000000000000 < \<bar>st_mtime js\<bar> \<longrightarrow>
      checkBuildStatus rt w = Inl (Error ''Invalid time value''))"
proof -
  have c1: "buildStatus rt w = Inr status \<longrightarrow>
      get_prop status ''built'' =
        JBool (existsSync w (wasm_dir rt) \<and>
               (\<exists>files. readdirSync w (wasm_dir rt) = Inr files \<and>
                  ''storefront_api_wasm.js'' \<in> set files \<and>
                  ''storefront_api_wasm_bg.wasm'' \<in> set files)) \<and>
      checkBuildStatus rt w =
        Inr \<lparr>content = [\<lparr>c_type = ''text'', c_text = JSON_stringify rt 2 status\<rparr>],
             isError = None\<rparr>"
    using buildStatus_built_iff [of rt w status]
    by (simp add: checkBuildStatus_def text_result_def)
  have c2: "existsSync w (wasm_dir rt) \<and> readdirSync w (wasm_dir rt) = Inr files \<and>
    ''storefront_api_wasm.js'' \<in> set files \<and> ''storefront_api_wasm_bg.wasm'' \<notin> set files \<and>
    statSync w (join_paths rt [wasm_dir rt, ''storefront_api_wasm.js'']) = Inr js \<and>
    \<bar>st_mtime js\<bar> \<le> 8640000000000000 \<longrightarrow>
      buildStatus rt w =
        Inr (JObj [(''built'', JBool False),
                   (''files'', JArr (map JStr files)),
                   (''missing'', JArr [JStr ''storefront_api_wasm_bg.wasm'']),
                   (''storefront_api_wasm.js'',
                      JObj [(''exists'', JBool True), (''size'', JNum (of_nat (st_size js))),
                            (''modified'', JStr (Date_toISOString rt (st_mtime js)))])])"
    using buildStatus_only_js [of w rt files js] by blast
  have c3: "existsSync w (wasm_dir rt) \<and> readdirSync w (wasm_dir rt) = Inr files \<and>
    ''storefront_api_wasm.js'' \<in> set files \<and> ''storefront_api_wasm_bg.wasm'' \<in> set files \<and>
    statSync w (join_paths rt [wasm_dir rt, ''storefront_api_wasm.js'']) = Inr js \<and>
    statSync w (join_paths rt [wasm_dir rt, ''storefront_api_wasm_bg.wasm'']) = Inr wasm \<and>
    \<bar>st_mtime js\<bar> \<le> 8640000000000000 \<and> \<bar>st_mtime wasm\<bar> \<le> 8640000000000000 \<longrightarrow>
      buildStatus rt w =
        Inr (JObj [(''built'', JBool True),
                   (''files'', JArr (map JStr files)),
                   (''missing'', JArr []),
                   (''storefront_api_wasm.js'',
                      JObj [(''exists'', JBool True), (''size'', JNum (of_nat (st_size js))),
                            (''modified'', JStr (Date_toISOString rt (st_mtime js)))]),
                   (''storefront_api_wasm_bg.wasm'',
                      JObj [(''exists'', JBool True), (''size'', JNum (of_nat (st_size wasm))),
                            (''modified'', JStr (Date_toISOString rt (st_mtime wasm)))])])"
    using buildStatus_both [of w rt files js wasm] by blast
  have c4: "existsSync w (wasm_dir rt) \<and> readdirSync w (wasm_dir rt) = Inr files \<and>
    name \<in> set expectedFiles \<and> name \<in> set files \<and>
    (statSync w (join_paths rt [wasm_dir rt, name]) = Inl e \<or>
     statSync w (join_paths rt [wasm_dir rt, name]) = Inr st \<and>
     8640000000000000 < \<bar>st_mtime st\<bar>) \<longrightarrow>
      (\<exists>e'. checkBuildStatus rt w = Inl e' \<and>
         callTool rt w ''check_build_status'' args =
           (\<lparr>content = [\<lparr>c_type = ''text'', c_text = ''Error: '' @ message e'\<rparr>],
             isError = Some True\<rparr>, []))"
  proof (intro impI)
    assume h: "existsSync w (wasm_dir rt) \<and> readdirSync w (wasm_dir rt) = Inr files \<and>
      name \<in> set expectedFiles \<and> name \<in> set files \<and>
      (statSync w (join_paths rt [wasm_dir rt, name]) = Inl e \<or>
       statSync w (join_paths rt [wasm_dir rt, name]) = Inr st \<and>
       8640000000000000 < \<bar>st_mtime st\<bar>)"
    then obtain e' where "buildStatus rt w = Inl e'"
      using buildStatus_listed_fails [of w rt files name e st] by blast
    then have "checkBuildStatus rt w = Inl e'" by (simp add: checkBuildStatus_def)
    then show "\<exists>e'. checkBuildStatus rt w = Inl e' \<and>
         callTool rt w ''check_build_status'' args =
           (\<lparr>content = [\<lparr>c_type = ''text'', c_text = ''Error: '' @ message e'\<rparr>],
             isError = Some True\<rparr>, [])"
      by (simp add: callTool_def callTool_try_def error_result_def)
  qed
  have c5: "existsSync w (wasm_dir rt) \<and> readdirSync w (wasm_dir rt) = Inr files \<and>
    ''storefront_api_wasm.js'' \<in> set files \<and>
    statSync w (join_paths rt [wasm_dir rt, ''storefront_api_wasm.js'']) = Inr js \<and>
    8640000000000000 < \<bar>st_mtime js\<bar> \<longrightarrow>
      checkBuildStatus rt w = Inl (Error ''Invalid time value'')"
    using buildStatus_js_fails(2) [of w rt files js]
    by (auto simp: checkBuildStatus_def)
  from c1 c2 c3 c4 c5 show ?thesis by (intro conjI)
qed

theorem check_build_status_report_witness:
  "existsSync (wasm_world [''storefront_api_wasm.js'']) (wasm_dir example_runtime) \<and>
   readdirSync (wasm_world [''storefront_api_wasm.js'']) (wasm_dir example_runtime) =
     Inr [''storefront_api_wasm.js''] \<and>
   buildStatus example_runtime (wasm_world [''storefront_api_wasm.js'']) =
     Inr (JObj [(''built'', JBool False),
                (''files'', JArr [JStr ''storefront_api_wasm.js'']),
                (''missing'', JArr [JStr ''storefront_api_wasm_bg.wasm'']),
                (''storefront_api_wasm.js'',
                   JObj [(''exists'', JBool True), (''size'', JNum 2048),
                         (''modified'',
                            JStr (Date_toISOString example_runtime 1700000000000))])]) \<and>
   buildStatus example_runtime
       (wasm_world [''storefront_api_wasm_bg.wasm'', ''storefront_api_wasm.js'']) =
     Inr (JObj [(''built'', JBool True),
                (''files'', JArr [JStr ''storefront_api_wasm_bg.wasm'',
                                  JStr ''storefront_api_wasm.js'']),
                (''missing'', JArr []),
                (''storefront_api_wasm.js'',
                   JObj [(''exists'', JBool True), (''size'', JNum 2048),
                         (''modified'',
                            JStr (Date_toISOString example_runtime 1700000000000))]),
                (''storefront_api_wasm_bg.wasm'',
                   JObj [(''exists'', JBool True), (''size'', JNum 2048),
                         (''modified'',
                            JStr (Date_toISOString example_runtime 1700000000000))])]) \<and>
   get_prop (JObj [(''built'', JBool False), (''files'', JArr []),
                   (''missing'', JArr [JStr ''storefront_api_wasm.js'',
                                       JStr ''storefront_api_wasm_bg.wasm''])]) ''built'' =
     JBool False \<and>
   checkBuildStatus example_runtime empty_world =
     Inr \<lparr>content = [\<lparr>c_type = ''text'',
             c_text = JSON_stringify example_runtime 2
               (JObj [(''built'', JBool False), (''files'', JArr []),
                      (''missing'', JArr [JStr ''storefront_api_wasm.js'',
                                          JStr ''storefront_api_wasm_bg.wasm''])])\<rparr>],
          isError = None\<rparr> \<and>
   ''storefront_api_wasm_bg.wasm'' \<in> set expectedFiles \<and>
   checkBuildStatus example_runtime far_future_world = Inl (Error ''Invalid time value'') \<and>
   isError (fst (callTool example_runtime far_future_world ''check_build_status'' (JObj []))) =
     Some True"
proof -
  let ?one = "wasm_world [''storefront_api_wasm.js'']"
  let ?two = "wasm_world [''storefront_api_wasm_bg.wasm'', ''storefront_api_wasm.js'']"
  let ?st = "\<lparr>st_size = 2048, st_mtime = 1700000000000\<rparr>"
  let ?far = "\<lparr>st_size = 2048, st_mtime = 9000000000000000\<rparr>"
  have e: "existsSync (wasm_world fs) ''/srv/mcp-server/dist/../../Liquid-main/assets/wasm''"
    for fs by (simp add: wasm_world_def)
  have r: "readdirSync (wasm_world fs) ''/srv/mcp-server/dist/../../Liquid-main/assets/wasm'' =
      Inr fs" for fs by (simp add: wasm_world_def)
  have s: "statSync (wasm_world fs) p = Inr ?st" for fs p
    by (simp add: wasm_world_def)
  have fe: "existsSync far_future_world ''/srv/mcp-server/dist/../../Liquid-main/assets/wasm''"
    and fr: "readdirSync far_future_world
               ''/srv/mcp-server/dist/../../Liquid-main/assets/wasm'' =
             Inr [''storefront_api_wasm.js'', ''storefront_api_wasm_bg.wasm'']"
    by (simp_all add: far_future_world_def wasm_world_def)
  have fs: "statSync far_future_world p = Inr ?far" for p
    by (simp add: far_future_world_def)
  have n: "buildStatus example_runtime empty_world =
      Inr (JObj [(''built'', JBool False), (''files'', JArr []),
                 (''missing'', JArr [JStr ''storefront_api_wasm.js'',
                                     JStr ''storefront_api_wasm_bg.wasm''])])"
    by (rule buildStatus_no_dir) (simp add: empty_world_def)
  have x: "''storefront_api_wasm_bg.wasm'' \<in> set expectedFiles"
    by (simp add: expectedFiles_def)
  show ?thesis
    using x check_build_status_report [of example_runtime ?one
        "JObj []" "[''storefront_api_wasm.js'']" ?st ?st
        "''storefront_api_wasm.js''" "Error []" ?st "JObj []"]
      check_build_status_report [of example_runtime ?two
        "JObj []" "[''storefront_api_wasm_bg.wasm'', ''storefront_api_wasm.js'']" ?st ?st
        "''storefront_api_wasm.js''" "Error []" ?st "JObj []"]
      check_build_status_report [of example_runtime empty_world
        "JObj [(''built'', JBool False), (''files'', JArr []),
               (''missing'', JArr [JStr ''storefront_api_wasm.js'',
                                   JStr ''storefront_api_wasm_bg.wasm''])]" "[]" ?st ?st
        "''storefront_api_wasm.js''" "Error []" ?st "JObj []"]
      check_build_status_report [of example_runtime far_future_world
        "JObj []" "[''storefront_api_wasm.js'', ''storefront_api_wasm_bg.wasm'']" ?far ?far
        "''storefront_api_wasm_bg.wasm''" "Error []" ?far "JObj []"]
    by (auto simp: e r s n fe fr fs)
qed

section \<open>The dispatcher never throws\<close>

lemma queryStorefrontApi_shape:
  "fst (queryStorefrontApi rt w query variables) = Inr r \<Longrightarrow> \<exists>t. r = text_result t"
  by (auto simp: queryStorefrontApi_def Let_def split: if_splits sum.splits)

lemma handlers_shape:
  "fst (getProduct rt w h) = Inr r \<Longrightarrow> \<exists>t. r = text_result t"
  "fst (getCollection rt w h f) = Inr r \<Longrightarrow> \<exists>t. r = text_result t"
  "fst (searchProducts rt w q f) = Inr r \<Longrightarrow> \<exists>t. r = text_result t"
  "buildWasm rt tgt = Inr r \<Longrightarrow> \<exists>t. r = text_result t"
  "readRustCode rt w file = Inr r \<Longrightarrow> \<exists>t. r = text_result t"
  "readJsWrapper rt w file = Inr r \<Longrightarrow> \<exists>t. r = text_result t"
  "checkBuildStatus rt w = Inr r \<Longrightarrow> \<exists>t. r = text_result t"
  by (auto simp: getProduct_def getCollection_def searchProducts_def buildWasm_def
      readRustCode_def readJsWrapper_def checkBuildStatus_def Let_def
      dest: queryStorefrontApi_shape split: if_splits sum.splits)

lemma callTool_try_shape:
  "fst (callTool_try rt w name args) = Inr r \<Longrightarrow> \<exists>t. r = text_result t"
  unfolding callTool_try_def
  by (auto split: if_splits dest: queryStorefrontApi_shape handlers_shape)

lemma callTool_catch:
  "(case callTool_try rt w name args of
      (Inl e, issued) \<Rightarrow>
        callTool rt w name args =
          (\<lparr>content = [\<lparr>c_type = ''text'', c_text = ''Error: '' @ message e\<rparr>],
            isError = Some True\<rparr>, issued)
    | (Inr r, issued) \<Rightarrow>
        callTool rt w name args = (r, issued) \<and>
        (\<exists>t. r = \<lparr>content = [\<lparr>c_type = ''text'', c_text = t\<rparr>], isError = None\<rparr>))"
proof (cases "callTool_try rt w name args")
  case (Pair out issued)
  show ?thesis
  proof (cases out)
    case (Inl e)
    with Pair show ?thesis by (simp add: callTool_def error_result_def)
  next
    case (Inr r)
    with Pair have "fst (callTool_try rt w name args) = Inr r" by simp
    then obtain t where "r = text_result t" using callTool_try_shape by blast
    with Pair Inr show ?thesis by (simp add: callTool_def text_result_def)
  qed
qed

lemma build_wasm_failure:
  assumes "to_string rt (js_or (get_prop args ''target'') (JStr ''web'')) = Inl e"
  shows "callTool rt w ''build_wasm'' args =
           (\<lparr>content = [\<lparr>c_type = ''text'', c_text = ''Error: '' @ message e\<rparr>],
             isError = Some True\<rparr>, [])"
  using assms by (simp add: callTool_def callTool_try_def buildWasm_def error_result_def)

lemma read_rust_failure:
  assumes "f \<noteq> []"
    and "readFileSync w (join_paths rt [dirname rt, ''../../storefront-api-wasm/src'', f]) = Inl e"
  shows "callTool rt w ''read_rust_code'' (JObj [(''file'', JStr f)]) =
           (\<lparr>content = [\<lparr>c_type = ''text'',
                c_text = ''Error: '' @ ''Failed to read Rust file: '' @ message e\<rparr>],
             isError = Some True\<rparr>, [])"
  using assms
  by (simp add: callTool_def callTool_try_def readRustCode_def path_join_def js_or_def
      error_result_def)

lemma network_failure:
  assumes "truthy q" and "truthy (loadConfig rt w)"
    and "to_string rt (get_prop (loadConfig rt w) ''shopDomain'') = Inr d"
    and "to_string rt (get_prop (loadConfig rt w) ''apiVersion'') = Inr a"
    and "fetch w (storefront_request rt d a (get_prop (loadConfig rt w) ''accessToken'') q v)
           = Inl e"
  shows "callTool rt w ''query_storefront_api'' (JObj [(''query'', q), (''variables'', v)]) =
           (\<lparr>content = [\<lparr>c_type = ''text'',
                c_text = ''Error: '' @ ''API request failed: '' @ message e\<rparr>],
             isError = Some True\<rparr>,
            [storefront_request rt d a (get_prop (loadConfig rt w) ''accessToken'') q v])"
  using assms(5)
  by (simp add: callTool_def callTool_try_def queryStorefrontApi_post [OF assms(1-4)]
      error_result_def)

lemma url_failure:
  assumes "truthy q" and "truthy (loadConfig rt w)"
    and "to_string rt (get_prop (loadConfig rt w) ''shopDomain'') = Inl e"
  shows "callTool rt w ''query_storefront_api'' (JObj [(''query'', q), (''variables'', v)]) =
           (\<lparr>content = [\<lparr>c_type = ''text'',
                c_text = ''Error: '' @ ''API request failed: '' @ message e\<rparr>],
             isError = Some True\<rparr>, [])"
  by (simp add: callTool_def callTool_try_def queryStorefrontApi_no_domain [OF assms]
      error_result_def)

lemma build_status_failure:
  assumes "checkBuildStatus rt w = Inl e"
  shows "callTool rt w ''check_build_status'' args =
           (\<lparr>content = [\<lparr>c_type = ''text'', c_text = ''Error: '' @ message e\<rparr>],
             isError = Some True\<rparr>, [])"
  using assms by (simp add: callTool_def callTool_try_def error_result_def)

text \<open>
  Claim C1. For every tool name and every argument object the call-tool handler returns a
  tool result: when the code inside the \<^verbatim>\<open>try\<close> throws, the result has \<open>isError\<close> true and
  the single text \<^verbatim>\<open>Error: <message>\<close>; otherwise it is the handler's own result, a single
  text without \<open>isError\<close>. In particular each of these failures comes back as such an error
  result: a target that cannot be converted to a string in \<^verbatim>\<open>build_wasm\<close>, a failed file
  read, a failed request, a configuration whose shop domain cannot be converted, and any
  failure of \<^verbatim>\<open>check_build_status\<close>.
\<close>

theorem callTool_returns_tool_result:
  "(case callTool_try rt w name args of
      (Inl e, issued) \<Rightarrow>
        callTool rt w name args =
          (\<lparr>content = [\<lparr>c_type = ''text'', c_text = ''Error: '' @ message e\<rparr>],
            isError = Some True\<rparr>, issued)
    | (Inr r, issued) \<Rightarrow>
        callTool rt w name args = (r, issued) \<and>
        (\<exists>t. r = \<lparr>content = [\<lparr>c_type = ''text'', c_text = t\<rparr>], isError = None\<rparr>)) \<and>
   (to_string rt (js_or (get_prop args ''target'') (JStr ''web'')) = Inl e \<longrightarrow>
      callTool rt w ''build_wasm'' args =
        (\<lparr>content = [\<lparr>c_type = ''text'', c_text = ''Error: '' @ message e\<rparr>],
          isError = Some True\<rparr>, [])) \<and>
   (f \<noteq> [] \<and>
    readFileSync w (join_paths rt [dirname rt, ''../../storefront-api-wasm/src'', f]) = Inl e
    \<longrightarrow>
      callTool rt w ''read_rust_code'' (JObj [(''file'', JStr f)]) =
        (\<lparr>content = [\<lparr>c_type = ''text'',
             c_text = ''Error: '' @ ''Failed to read Rust file: '' @ message e\<rparr>],
          isError = Some True\<rparr>, [])) \<and>
   (truthy q \<and> truthy (loadConfig rt w) \<and>
    to_string rt (get_prop (loadConfig rt w) ''shopDomain'') = Inr d \<and>
    to_string rt (get_prop (loadConfig rt w) ''apiVersion'') = Inr a \<and>
    fetch w (storefront_request rt d a (get_prop (loadConfig rt w) ''accessToken'') q v) = Inl e
    \<longrightarrow>
      callTool rt w ''query_storefront_api'' (JObj [(''query'', q), (''variables'', v)]) =
        (\<lparr>content = [\<lparr>c_type = ''text'',
             c_text = ''Error: '' @ ''API request failed: '' @ message e\<rparr>],
          isError = Some True\<rparr>,
         [storefront_request rt d a (get_prop (loadConfig rt w) ''accessToken'') q v])) \<and>
   (truthy q \<and> truthy (loadConfig rt w) \<and>
    to_string rt (get_prop (loadConfig rt w) ''shopDomain'') = Inl e
    \<longrightarrow>
      callTool rt w ''query_storefront_api'' (JObj [(''query'', q), (''variables'', v)]) =
        (\<lparr>content = [\<lparr>c_type = ''text'',
             c_text = ''Error: '' @ ''API request failed: '' @ message e\<rparr>],
          isError = Some True\<rparr>, [])) \<and>
   (checkBuildStatus rt w = Inl e \<longrightarrow>
      callTool rt w ''check_build_status'' args =
        (\<lparr>content = [\<lparr>c_type = ''text'', c_text = ''Error: '' @ message e\<rparr>],
          isError = Some True\<rparr>, []))"
  using callTool_catch [of rt w name args] build_wasm_failure [of rt args e w]
    read_rust_failure [of f w rt e] network_failure [of q rt w d a v e]
    url_failure [of q rt w e v] build_status_failure [of rt w e args]
  by blast

theorem callTool_returns_tool_result_witness:
  "callTool example_runtime env_world ''read_js_wrapper'' (JObj []) =
     (\<lparr>content = [\<lparr>c_type = ''text'',
          c_text = ''Error: The path argument must be of type string''\<rparr>],
       isError = Some True\<rparr>, []) \<and>
   callTool example_runtime env_world ''build_wasm''
       (JObj [(''target'', JObj [(''toString'', JNum 1)])]) =
     (\<lparr>content = [\<lparr>c_type = ''text'',
          c_text = ''Error: Cannot convert object to primitive value''\<rparr>],
       isError = Some True\<rparr>, []) \<and>
   callTool example_runtime env_world ''read_rust_code'' (JObj [(''file'', JStr ''lib.rs'')]) =
     (\<lparr>content = [\<lparr>c_type = ''text'',
          c_text = ''Error: Failed to read Rust file: ENOENT: no such file or directory, open /srv/mcp-server/dist/../../storefront-api-wasm/src/lib.rs''\<rparr>],
       isError = Some True\<rparr>, []) \<and>
   fst (callTool example_runtime env_world ''query_storefront_api''
          (JObj [(''query'', JStr ''{ shop { name } }''), (''variables'', JUndefined)])) =
     \<lparr>content = [\<lparr>c_type = ''text'', c_text = ''Error: API request failed: fetch failed''\<rparr>],
      isError = Some True\<rparr> \<and>
   callTool example_runtime (config_world empty_world odd_config_text) ''query_storefront_api''
       (JObj [(''query'', JStr ''{ shop { name } }''), (''variables'', JUndefined)]) =
     (\<lparr>content = [\<lparr>c_type = ''text'',
          c_text = ''Error: API request failed: Cannot convert object to primitive value''\<rparr>],
       isError = Some True\<rparr>, []) \<and>
   callTool example_runtime far_future_world ''check_build_status'' (JObj []) =
     (\<lparr>content = [\<lparr>c_type = ''text'', c_text = ''Error: Invalid time value''\<rparr>],
       isError = Some True\<rparr>, [])"
proof -
  let ?o = "config_world empty_world odd_config_text"
  let ?q = "JStr ''{ shop { name } }''"
  have t: "callTool_try example_runtime env_world ''read_js_wrapper'' (JObj []) =
      (Inl (Error ''The path argument must be of type string''), [])"
    by (simp add: callTool_try_def readJsWrapper_def path_join_def example_runtime_def)
  have r: "readFileSync env_world p =
      Inl (Error (''ENOENT: no such file or directory, open '' @ p))" for p
    by (simp add: env_world_def empty_world_def)
  have j: "join_with ''/''
             [dirname example_runtime, ''../../storefront-api-wasm/src'', ''lib.rs''] =
           ''/srv/mcp-server/dist/../../storefront-api-wasm/src/lib.rs''"
    by (simp add: example_runtime_def)
  have fe: "fetch env_world x = Inl (Error ''fetch failed'')" for x
    by (simp add: env_world_def empty_world_def)
  have d: "dirname example_runtime = ''/srv/mcp-server/dist''"
    by (simp add: example_runtime_def)
  have o: "truthy (loadConfig example_runtime ?o)"
    and od: "to_string example_runtime (get_prop (loadConfig example_runtime ?o) ''shopDomain'') =
       Inl (Error ''Cannot convert object to primitive value'')"
    by (simp_all add: example_odd_config odd_config_def)
  note c = far_future_no_report
  show ?thesis
    using callTool_returns_tool_result [of example_runtime env_world "''read_js_wrapper''"
        "JObj []" "Error []" "''lib.rs''" ?q "[]" "[]" JUndefined]
      callTool_returns_tool_result [of example_runtime env_world "''read_js_wrapper''"
        "JObj [(''target'', JObj [(''toString'', JNum 1)])]"
        "Error ''Cannot convert object to primitive value''" "''lib.rs''" ?q "[]" "[]" JUndefined]
      callTool_returns_tool_result [of example_runtime env_world "''read_js_wrapper''"
        "JObj []"
        "Error ''ENOENT: no such file or directory, open /srv/mcp-server/dist/../../storefront-api-wasm/src/lib.rs''"
        "''lib.rs''" ?q "[]" "[]" JUndefined]
      callTool_returns_tool_result [of example_runtime env_world "''read_js_wrapper''"
        "JObj []" "Error ''fetch failed''" "''lib.rs''" ?q
        "''demo.myshopify.com''" "''2024-01''" JUndefined]
      callTool_returns_tool_result [of example_runtime ?o "''read_js_wrapper''"
        "JObj []" "Error ''Cannot convert object to primitive value''" "''lib.rs''" ?q
        "[]" "[]" JUndefined]
      callTool_returns_tool_result [of example_runtime far_future_world "''read_js_wrapper''"
        "JObj []" "Error ''Invalid time value''" "''lib.rs''" ?q "[]" "[]" JUndefined]
    by (simp add: t r j d fe js_or_def o od c example_loadConfig_env)
qed

end
